theory Spec2Isabelle
  imports Main "HOL-Library.Word"
begin

section \<open>Values handed over by database/sql\<close>

text \<open>
  Go strings and byte slices are byte sequences; both are \<open>string\<close> here (one \<open>char\<close> per
  byte). An \<open>int64\<close> is a 64-bit word read with \<open>sint\<close>; a \<open>float64\<close> is its IEEE 754
  bit pattern.
\<close>

datatype float64 = Float64frombits "64 word"

text \<open>
  \<open>time.Time\<close>, as far as the exporter looks at it: \<open>Unix()\<close>, \<open>Nanosecond()\<close> and the zone
  offset that \<open>Format\<close> prints.
\<close>

record gotime =
  Unix :: "64 word"
  Nanosecond :: nat
  ZoneOffset :: int

text \<open>
  The dynamic type of an \<open>interface{}\<close> column value: the cases of the type switches in
  \<open>DbToFloat64\<close> and \<open>DbToString\<close>, and \<open>VOther\<close> (carrying the name of the type) for
  anything that reaches their \<open>default\<close> branch.
\<close>

datatype dbvalue =
    VInt64 "64 word"
  | VFloat64 float64
  | VTime gotime
  | VBytes string
  | VString string
  | VBool bool
  | VNil
  | VOther string

section \<open>Go builtins used by the coercions\<close>

subsection \<open>Conversion of an integer to float64\<close>

fun bitlen :: "nat \<Rightarrow> nat" where
  "bitlen n = (if n = 0 then 0 else Suc (bitlen (n div 2)))"

text \<open>
  \<open>float64(v)\<close> for an integer \<open>v\<close> with \<open>|v| \<le> 2^63\<close>: the nearest double, ties to even.
  \<open>m\<close> is the magnitude, \<open>e\<close> the exponent of its leading bit. Up to 53 significant bits the
  conversion is exact; above, the low \<open>e - 52\<close> bits are rounded away.
\<close>

definition float64_mantissa :: "nat \<Rightarrow> nat \<times> nat" where
  "float64_mantissa m =
     (let e = bitlen m - 1 in
      if e \<le> 52 then (m * 2 ^ (52 - e), e)
      else
        let sh = e - 52;
            q = m div 2 ^ sh;
            r = m mod 2 ^ sh;
            half = 2 ^ (sh - 1);
            q' = (if half < r \<or> (r = half \<and> odd q) then q + 1 else q)
        in if q' = 2 ^ 53 then (2 ^ 52, e + 1) else (q', e))"

definition float64_of_int :: "int \<Rightarrow> float64" where
  "float64_of_int i =
     (if i = 0 then Float64frombits 0
      else
        let (mant, e) = float64_mantissa (nat \<bar>i\<bar>);
            sign = (if i < 0 then 2 ^ 63 else 0)
        in Float64frombits (of_nat (sign + (e + 1023) * 2 ^ 52 + (mant - 2 ^ 52))))"

text \<open>\<open>math.NaN()\<close> is \<open>Float64frombits(0x7FF8000000000001)\<close>.\<close>

definition NaN :: float64 where
  "NaN = Float64frombits 0x7FF8000000000001"

subsection \<open>Decimal rendering\<close>

definition digit_char :: "nat \<Rightarrow> char" where
  "digit_char d = char_of (48 + d)"

fun show_nat :: "nat \<Rightarrow> string" where
  "show_nat n = (if n < 10 then [digit_char n] else show_nat (n div 10) @ [digit_char (n mod 10)])"

text \<open>\<open>%v\<close> (and \<open>%d\<close>) of a signed integer.\<close>

definition show_int :: "int \<Rightarrow> string" where
  "show_int i = (if i < 0 then CHR ''-'' # show_nat (nat (- i)) else show_nat (nat i))"

text \<open>\<open>%03d\<close> of a non-negative integer: zero-padded on the left to at least three digits.\<close>

definition fmt_03d :: "nat \<Rightarrow> string" where
  "fmt_03d n = replicate (3 - length (show_nat n)) CHR ''0'' @ show_nat n"

section \<open>Library functions outside the repository\<close>

text \<open>
  Errors are values. \<open>ErrParsingColumn\<close> is the error built in \<open>newMetric\<close> by
  \<open>errors.New(fmt.Sprintln("Unexpected error parsing column: ", metricName, columnName,
  colValue))\<close>, kept as its three operands. \<open>ErrUnexpected\<close> is \<open>RecoverErr\<close>'s
  \<open>fmt.Errorf("unexpected error: %#v", e)\<close>, carrying the rendering of \<open>e\<close>.
  \<open>ErrRuntime\<close> is a Go runtime error, \<open>ErrLib\<close> an error returned by a library.
\<close>

datatype error =
    ErrParsingColumn string string dbvalue
  | ErrUnexpected string
  | ErrRuntime string
  | ErrLib string

text \<open>The value a panic carries: an \<open>error\<close>, or anything else.\<close>

datatype panicval = PanicError error | PanicValue string

text \<open>Indexing a slice panics out of range.\<close>

definition index :: "'a list \<Rightarrow> int \<Rightarrow> panicval + 'a" where
  "index xs i =
     (if 0 \<le> i \<and> i < int (length xs) then Inr (xs ! nat i)
      else Inl (PanicError (ErrRuntime ''index out of range'')))"

subsection \<open>Prometheus client\<close>

datatype ValueType = CounterValue | GaugeValue | UntypedValue | OtherValue nat

record Desc =
  fqName :: string
  descHelp :: string
  constLabels :: "(string \<times> string) list"
  variableLabels :: "string list"
  descErr :: "error option"

text \<open>A constant metric: what \<open>NewConstMetric\<close> stores.\<close>

record Metric =
  metricDesc :: Desc
  metricType :: ValueType
  metricValue :: float64
  metricLabelValues :: "string list"

text \<open>
  The library functions whose results the exporter only passes on. Each field is the
  function of that name:
  \<^item> \<open>ParseFloat s\<close> is \<open>strconv.ParseFloat(s, 64)\<close>, \<open>None\<close> when it returns an error;
  \<^item> \<open>SprintFloat\<close> is \<open>fmt.Sprintf("%v", v)\<close> of a float64;
  \<^item> \<open>FormatRFC3339Nano\<close> is \<open>v.Format(time.RFC3339Nano)\<close>;
  \<^item> \<open>ToUpperUnicode\<close> and \<open>EqualFoldUnicode\<close> are \<open>strings.ToUpper\<close> and
    \<open>strings.EqualFold\<close> where an operand has a byte outside ASCII;
  \<^item> \<open>MIBEncoding name\<close> is \<open>ianaindex.MIB.Encoding(name)\<close>: an error, a nil encoding
    (\<open>Inr None\<close>), or an encoding, given as what reading all of
    \<open>transform.NewReader(bytes.NewReader(b), enc.NewDecoder())\<close> returns for \<open>b\<close>;
  \<^item> \<open>MustNewConstMetric\<close> is \<open>prometheus.MustNewConstMetric\<close>: the metric, or the value
    it panics with. The descriptor is a pointer, \<open>None\<close> when nil.
\<close>

record golib =
  ParseFloat :: "string \<Rightarrow> float64 option"
  SprintFloat :: "float64 \<Rightarrow> string"
  FormatRFC3339Nano :: "gotime \<Rightarrow> string"
  ToUpperUnicode :: "string \<Rightarrow> string"
  EqualFoldUnicode :: "string \<Rightarrow> string \<Rightarrow> bool"
  MIBEncoding :: "string \<Rightarrow> error + (string \<Rightarrow> error + string) option"
  MustNewConstMetric :: "Desc option \<Rightarrow> ValueType \<Rightarrow> float64 \<Rightarrow> string list \<Rightarrow> panicval + Metric"

section \<open>collector/utils: the coercion layer\<close>

text \<open>
  \<open>DbToFloat64\<close>: the type switch, case by case in the order of the source. The
  literals \<open>1.0\<close> and \<open>0.0\<close> are the bit patterns \<open>0x3FF0000000000000\<close> and \<open>0\<close>.
\<close>

fun DbToFloat64 :: "golib \<Rightarrow> dbvalue \<Rightarrow> float64 \<times> bool" where
  "DbToFloat64 lib (VInt64 v) = (float64_of_int (sint v), True)"
| "DbToFloat64 lib (VFloat64 v) = (v, True)"
| "DbToFloat64 lib (VTime v) = (float64_of_int (sint (Unix v)), True)"
| "DbToFloat64 lib (VBytes v) =
     (case ParseFloat lib v of None \<Rightarrow> (NaN, False) | Some result \<Rightarrow> (result, True))"
| "DbToFloat64 lib (VString v) =
     (case ParseFloat lib v of None \<Rightarrow> (NaN, False) | Some result \<Rightarrow> (result, True))"
| "DbToFloat64 lib (VBool v) =
     (if v then (Float64frombits 0x3FF0000000000000, True) else (Float64frombits 0, True))"
| "DbToFloat64 lib VNil = (NaN, True)"
| "DbToFloat64 lib (VOther ty) = (NaN, False)"

text \<open>\<open>DbToString\<close>.\<close>

fun DbToString :: "golib \<Rightarrow> dbvalue \<Rightarrow> bool \<Rightarrow> string \<times> bool" where
  "DbToString lib (VInt64 v) time2string = (show_int (sint v), True)"
| "DbToString lib (VFloat64 v) time2string = (SprintFloat lib v, True)"
| "DbToString lib (VTime v) time2string =
     (if time2string then (FormatRFC3339Nano lib v, True)
      else (show_int (sint (Unix v)) @ fmt_03d (Nanosecond v div 1000000), True))"
| "DbToString lib VNil time2string = ([], True)"
| "DbToString lib (VBytes v) time2string = (v, True)"
| "DbToString lib (VString v) time2string = (v, True)"
| "DbToString lib (VBool v) time2string = (if v then (''true'', True) else (''false'', True))"
| "DbToString lib (VOther ty) time2string = ([], False)"

text \<open>
  \<open>RecoverErr\<close>, deferred in \<open>newMetric\<close>. \<open>e\<close> is the result of \<open>recover()\<close>: \<open>None\<close> when
  the function is not panicking. The second argument is the caller's \<open>err\<close> on entry, the
  result is its \<open>err\<close> afterwards.
\<close>

fun RecoverErr :: "panicval option \<Rightarrow> error option \<Rightarrow> error option" where
  "RecoverErr None err = err"
| "RecoverErr (Some (PanicError v)) err = Some v"
| "RecoverErr (Some (PanicValue e)) err = Some (ErrUnexpected e)"

subsection \<open>unicode/utf8 and strings\<close>

definition cont :: "nat \<Rightarrow> bool" where
  "cont b = (128 \<le> b \<and> b < 192)"

text \<open>
  \<open>utf8.Valid\<close> on the byte values: a byte below \<open>0x80\<close>, or a lead byte followed by the
  continuation bytes its range admits (no overlong form, no surrogate, nothing above
  \<open>U+10FFFF\<close>).
\<close>

fun ValidBytes :: "nat list \<Rightarrow> bool" where
  "ValidBytes [] = True"
| "ValidBytes (b0 # r) =
     (if b0 < 128 then ValidBytes r
      else if 194 \<le> b0 \<and> b0 \<le> 223 then
        (case r of b1 # r1 \<Rightarrow> cont b1 \<and> ValidBytes r1 | _ \<Rightarrow> False)
      else if 224 \<le> b0 \<and> b0 \<le> 239 then
        (case r of
           b1 # b2 # r2 \<Rightarrow>
             (if b0 = 224 then 160 \<le> b1 \<and> b1 < 192
              else if b0 = 237 then 128 \<le> b1 \<and> b1 < 160
              else cont b1) \<and> cont b2 \<and> ValidBytes r2
         | _ \<Rightarrow> False)
      else if 240 \<le> b0 \<and> b0 \<le> 244 then
        (case r of
           b1 # b2 # b3 # r3 \<Rightarrow>
             (if b0 = 240 then 144 \<le> b1 \<and> b1 < 192
              else if b0 = 244 then 128 \<le> b1 \<and> b1 < 144
              else cont b1) \<and> cont b2 \<and> cont b3 \<and> ValidBytes r3
         | _ \<Rightarrow> False)
      else False)"

definition ValidString :: "string \<Rightarrow> bool" where
  "ValidString s = ValidBytes (map of_char s)"

definition isASCII :: "string \<Rightarrow> bool" where
  "isASCII s = list_all (\<lambda>c. (of_char c :: nat) < 128) s"

definition ascii_upper :: "char \<Rightarrow> char" where
  "ascii_upper c =
     (if 97 \<le> (of_char c :: nat) \<and> (of_char c :: nat) \<le> 122 then char_of (of_char c - (32::nat)) else c)"

definition ascii_lower :: "char \<Rightarrow> char" where
  "ascii_lower c =
     (if 65 \<le> (of_char c :: nat) \<and> (of_char c :: nat) \<le> 90 then char_of (of_char c + (32::nat)) else c)"

text \<open>
  \<open>strings.ToUpper\<close> and \<open>strings.EqualFold\<close>: on ASCII operands they are the byte-wise
  functions of the library's fast path; otherwise the library decides.
\<close>

definition ToUpper :: "golib \<Rightarrow> string \<Rightarrow> string" where
  "ToUpper lib s = (if isASCII s then map ascii_upper s else ToUpperUnicode lib s)"

definition EqualFold :: "golib \<Rightarrow> string \<Rightarrow> string \<Rightarrow> bool" where
  "EqualFold lib s t =
     (if isASCII s \<and> isASCII t then map ascii_lower s = map ascii_lower t
      else EqualFoldUnicode lib s t)"

subsection \<open>Character sets\<close>

definition UTF8 :: string where "UTF8 = ''UTF8''"
definition UTF8Underline :: string where "UTF8Underline = ''UTF-8''"
definition GBK :: string where "GBK = ''GBK''"
definition GB18030 :: string where "GB18030 = ''GB18030''"

definition CharSetMap :: "(string \<times> string) list" where
  "CharSetMap = [(UTF8, UTF8Underline), (GBK, GBK), (GB18030, GBK)]"

definition GetMapCharset :: "golib \<Rightarrow> string \<Rightarrow> string" where
  "GetMapCharset lib s =
     (case map_of CharSetMap (ToUpper lib s) of Some o' \<Rightarrow> o' | None \<Rightarrow> s)"

text \<open>
  \<open>DecodeByte\<close> returns its pair \<open>([]byte, error)\<close>; calling \<open>NewDecoder\<close> on a nil
  encoding panics.
\<close>

definition DecodeByte :: "golib \<Rightarrow> string \<Rightarrow> string \<Rightarrow> panicval + (string \<times> error option)" where
  "DecodeByte lib b charset =
     (let charset' = GetMapCharset lib charset in
      case MIBEncoding lib charset' of
        Inl err \<Rightarrow> Inr (b, Some err)
      | Inr None \<Rightarrow> Inl (PanicError (ErrRuntime ''invalid memory address or nil pointer dereference''))
      | Inr (Some gbkEnc) \<Rightarrow>
          (case gbkEnc b of
             Inl err \<Rightarrow> Inr (b, Some err)
           | Inr tmp \<Rightarrow> Inr (tmp, None)))"

section \<open>collector/config\<close>

record GaussDBConnectConfig =
  Address :: string
  Port :: int
  Username :: string
  Password :: string
  Database :: string

text \<open>
  Modelled from the spec: the declarations of \<open>config.Query\<close>, \<open>config.Column\<close> and
  \<open>config.QueryInstance\<close> are not among the sources. The records have the fields the
  collector reads (\<open>query.SQL\<close>, \<open>query.Status\<close>, \<open>col.DisCard\<close>, \<open>col.Histogram\<close>,
  \<open>col.Usage\<close>, \<open>col.CheckUTF8\<close>, \<open>col.PrometheusDesc\<close>, \<open>col.PrometheusType\<close>,
  \<open>queryInstance.Name\<close>, \<open>.Queries\<close>, \<open>.LabelNames\<close>, \<open>.DBNameLabel\<close>) and, for the
  query definition, the spec's mapping from column name to column descriptor.
\<close>

record Query =
  SQL :: string
  Status :: string

record Column =
  DisCard :: bool
  Histogram :: bool
  Usage :: string
  CheckUTF8 :: bool
  PrometheusDesc :: "Desc option"
  PrometheusType :: ValueType

record QueryInstance =
  Name :: string
  Queries :: "Query list"
  LabelNames :: "string list"
  DBNameLabel :: string
  Columns :: "(string \<times> Column) list"

text \<open>
  The package-level state of \<open>config\<close> that the collector reads: the variable \<open>MonitDB\<close>
  and the constant \<open>MappedMETRIC\<close>, whose declaration is not among the sources and whose
  value is therefore a parameter.
\<close>

record config =
  MonitDB :: GaussDBConnectConfig
  MappedMETRIC :: string

text \<open>
  \<open>GetColumn\<close> is a method on \<open>*QueryInstance\<close> whose body is not among the sources. The
  collector is parametric in it: a function from the definition, a column name and the
  server labels to the column found (\<open>None\<close> for nil) and the definition as the call leaves
  it, since a pointer receiver may write to it.
\<close>

type_synonym getColumn =
  "QueryInstance \<Rightarrow> string \<Rightarrow> (string \<times> string) list \<Rightarrow> Column option \<times> QueryInstance"

text \<open>
  Modelled from the spec: \<open>GetColumn\<close> (ResolveColumn) is missing from the sources. It
  "looks up an explicit descriptor by exact column name; the server-identity label set is
  attached to every resolved descriptor's constant labels", and definitions and
  descriptors "are read-only during scraping": the definition is handed back as it was.
\<close>

definition GetColumn :: getColumn where
  "GetColumn q colName serverLabels =
     (case map_of (Columns q) colName of
        None \<Rightarrow> (None, q)
      | Some col \<Rightarrow>
          (Some (col\<lparr>PrometheusDesc :=
                   map_option (\<lambda>d. d\<lparr>constLabels := constLabels d @ serverLabels\<rparr>)
                     (PrometheusDesc col)\<rparr>),
           q))"

section \<open>collector/opengauss: rows to metrics\<close>

text \<open>
  \<open>prometheus.Labels{"server": fmt.Sprintf("%s:%d", config.MonitDB.Address,
  config.MonitDB.Port)}\<close>.
\<close>

definition serverLabels :: "config \<Rightarrow> (string \<times> string) list" where
  "serverLabels cfg =
     [(''server'', Address (MonitDB cfg) @ '':'' @ show_int (Port (MonitDB cfg)))]"

text \<open>
  \<open>newMetric\<close> returns its pair \<open>(metric, err)\<close>, nil as \<open>None\<close>. From
  \<open>defer utils.RecoverErr(&err)\<close> on, a panic of \<open>MustNewConstMetric\<close> ends the function
  with \<open>metric\<close> still nil and \<open>err\<close> as \<open>RecoverErr\<close> sets it.
\<close>

definition newMetric ::
  "golib \<Rightarrow> config \<Rightarrow> QueryInstance \<Rightarrow> Column option \<Rightarrow> string \<Rightarrow> dbvalue \<Rightarrow> string list
     \<Rightarrow> Metric option \<times> error option" where
  "newMetric lib cfg queryInstance col columnName colValue labels =
     (let metricName = Name queryInstance in
      case col of
        None \<Rightarrow> (None, None)
      | Some c \<Rightarrow>
          if DisCard c then (None, None)
          else if Histogram c then (None, None)
          else if EqualFold lib (Usage c) (MappedMETRIC cfg) then (None, None)
          else
            let desc = PrometheusDesc c;
                valueType = PrometheusType c;
                (value, valueOK) = DbToFloat64 lib colValue
            in if \<not> valueOK then (None, Some (ErrParsingColumn metricName columnName colValue))
               else
                 (case MustNewConstMetric lib desc valueType value labels of
                    Inl p \<Rightarrow> (None, RecoverErr (Some p) None)
                  | Inr metric \<Rightarrow> (Some metric, RecoverErr None None)))"

text \<open>
  \<open>decode\<close> returns its pair \<open>(string, error)\<close> and the definition as \<open>GetColumn\<close> left it;
  \<open>Inl\<close> is a panic passing through.
\<close>

definition decode ::
  "golib \<Rightarrow> getColumn \<Rightarrow> config \<Rightarrow> QueryInstance \<Rightarrow> dbvalue \<Rightarrow> string \<Rightarrow> string
     \<Rightarrow> panicval + ((string \<times> error option) \<times> QueryInstance)" where
  "decode lib gc cfg queryInstance data label dbName =
     (let v = fst (DbToString lib data False);
          (col, q') = gc queryInstance label (serverLabels cfg)
      in case col of
           None \<Rightarrow> Inr ((v, None), q')
         | Some c \<Rightarrow>
             if \<not> CheckUTF8 c then Inr ((v, None), q')
             else if ValidString v then Inr ((v, None), q')
             else if dbName = [] then Inr (([], None), q')
             else
               (case DecodeByte lib v ''UTF8'' of
                  Inl p \<Rightarrow> Inl p
                | Inr (b, Some err) \<Rightarrow> Inr (([], None), q')
                | Inr (b, None) \<Rightarrow> Inr ((b, None), q')))"

text \<open>
  Reading a Go map at an absent key gives the zero value: \<open>columnIdx[label]\<close> is 0 when
  \<open>label\<close> is not a key.
\<close>

definition mapIndex :: "(string \<rightharpoonup> int) \<Rightarrow> string \<Rightarrow> int" where
  "mapIndex columnIdx k = (case columnIdx k of None \<Rightarrow> 0 | Some i \<Rightarrow> i)"

text \<open>
  The loop over \<open>queryInstance.LabelNames\<close> in \<open>procRows\<close>: \<open>labels[idx] = v\<close> for each
  pair \<open>(idx, label)\<close>, the error of \<open>decode\<close> only logged.
\<close>

fun labelLoop ::
  "golib \<Rightarrow> getColumn \<Rightarrow> config \<Rightarrow> (string \<rightharpoonup> int) \<Rightarrow> dbvalue list \<Rightarrow> string
     \<Rightarrow> (nat \<times> string) list \<Rightarrow> QueryInstance \<Rightarrow> string list
     \<Rightarrow> panicval + (string list \<times> QueryInstance)" where
  "labelLoop lib gc cfg columnIdx columnData dbName [] q labels = Inr (labels, q)"
| "labelLoop lib gc cfg columnIdx columnData dbName ((idx, label) # rest) q labels =
     (case index columnData (mapIndex columnIdx label) of
        Inl p \<Rightarrow> Inl p
      | Inr d \<Rightarrow>
          (case decode lib gc cfg q d label dbName of
             Inl p \<Rightarrow> Inl p
           | Inr ((v, err), q') \<Rightarrow>
               labelLoop lib gc cfg columnIdx columnData dbName rest q' (labels[idx := v])))"

text \<open>
  The loop over \<open>columnNames\<close>: an error is appended to \<open>nonfatalErrors\<close> and the loop
  continues; otherwise a metric that is not nil is appended to \<open>metrics\<close>.
\<close>

fun columnLoop ::
  "golib \<Rightarrow> getColumn \<Rightarrow> config \<Rightarrow> dbvalue list \<Rightarrow> string list
     \<Rightarrow> (nat \<times> string) list \<Rightarrow> QueryInstance \<Rightarrow> Metric list \<Rightarrow> error list
     \<Rightarrow> panicval + ((Metric list \<times> error list) \<times> QueryInstance)" where
  "columnLoop lib gc cfg columnData labels [] q metrics nonfatalErrors =
     Inr ((metrics, nonfatalErrors), q)"
| "columnLoop lib gc cfg columnData labels ((idx, columnName) # rest) q metrics nonfatalErrors =
     (let (col, q') = gc q columnName (serverLabels cfg) in
      case index columnData (int idx) of
        Inl p \<Rightarrow> Inl p
      | Inr colValue \<Rightarrow>
          (case newMetric lib cfg q' col columnName colValue labels of
             (metric, Some err) \<Rightarrow>
               columnLoop lib gc cfg columnData labels rest q' metrics (nonfatalErrors @ [err])
           | (Some metric, None) \<Rightarrow>
               columnLoop lib gc cfg columnData labels rest q' (metrics @ [metric]) nonfatalErrors
           | (None, None) \<Rightarrow>
               columnLoop lib gc cfg columnData labels rest q' metrics nonfatalErrors))"

text \<open>
  The first part of \<open>procRows\<close> ("Get the label values for this row"): \<open>dbName\<close>, then
  the label loop. The result is \<open>labels\<close> and the definition as the calls of \<open>GetColumn\<close>
  left it, or the panic of an index out of range.
\<close>

definition rowLabels ::
  "golib \<Rightarrow> getColumn \<Rightarrow> config \<Rightarrow> QueryInstance \<Rightarrow> (string \<rightharpoonup> int) \<Rightarrow> dbvalue list
     \<Rightarrow> panicval + (string list \<times> QueryInstance)" where
  "rowLabels lib gc cfg queryInstance columnIdx columnData =
     (let labels = replicate (length (LabelNames queryInstance)) [];
          dbNameLabel = DBNameLabel queryInstance
      in case (if dbNameLabel \<noteq> []
               then (case index columnData (mapIndex columnIdx dbNameLabel) of
                       Inl p \<Rightarrow> Inl p
                     | Inr d \<Rightarrow> Inr (fst (DbToString lib d True)))
               else Inr []) of
           Inl p \<Rightarrow> Inl p
         | Inr dbName \<Rightarrow>
             labelLoop lib gc cfg columnIdx columnData dbName
               (enumerate 0 (LabelNames queryInstance)) queryInstance labels)"

text \<open>
  \<open>procRows\<close>: the label values, then the loop over the columns. The result is the pair
  \<open>(metrics, nonfatalErrors)\<close> and the definition as the calls left it, or a panic.
\<close>

definition procRows ::
  "golib \<Rightarrow> getColumn \<Rightarrow> config \<Rightarrow> QueryInstance \<Rightarrow> string list \<Rightarrow> (string \<rightharpoonup> int)
     \<Rightarrow> dbvalue list \<Rightarrow> panicval + ((Metric list \<times> error list) \<times> QueryInstance)" where
  "procRows lib gc cfg queryInstance columnNames columnIdx columnData =
     (case rowLabels lib gc cfg queryInstance columnIdx columnData of
        Inl p \<Rightarrow> Inl p
      | Inr (labels, q') \<Rightarrow>
          columnLoop lib gc cfg columnData labels (enumerate 0 columnNames) q' [] [])"

section \<open>collector/opengauss: running the statements\<close>

text \<open>
  What \<open>db.QueryContext\<close> returns for a statement text: an error, nil rows, or rows. Rows
  are what \<open>rows.Columns()\<close> returns and, for each \<open>rows.Next()\<close> that succeeds, the values
  the driver delivers or the error of \<open>rows.Scan\<close>. The database is taken to answer a
  statement text the same way throughout one call of \<open>getMetric\<close>.
\<close>

datatype queryResult =
    QueryErr error
  | QueryNil
  | QueryRows "error + string list" "(error + dbvalue list) list"

text \<open>
  The loop \<open>for rows.Next()\<close>: \<open>Scan\<close> into \<open>n = len(columnNames)\<close> destinations fails
  when the row does not have \<open>n\<close> values; any failure of \<open>Scan\<close> breaks the loop.
\<close>

fun scanLoop :: "nat \<Rightarrow> (error + dbvalue list) list \<Rightarrow> dbvalue list list \<Rightarrow> dbvalue list list" where
  "scanLoop n [] list = list"
| "scanLoop n (Inl err # rest) list = list"
| "scanLoop n (Inr columnData # rest) list =
     (if length columnData \<noteq> n then list else scanLoop n rest (list @ [columnData]))"

text \<open>The loop over \<open>queryInstance.Queries\<close>, carrying \<open>columnNames\<close> and \<open>list\<close>.\<close>

fun queryLoop ::
  "(string \<Rightarrow> queryResult) \<Rightarrow> Query list \<Rightarrow> string list \<Rightarrow> dbvalue list list
     \<Rightarrow> string list \<times> dbvalue list list" where
  "queryLoop db [] columnNames list = (columnNames, list)"
| "queryLoop db (query # rest) columnNames list =
     (if Status query = ''disable'' then queryLoop db rest columnNames list
      else
        (case db (SQL query) of
           QueryErr err \<Rightarrow> queryLoop db rest columnNames list
         | QueryNil \<Rightarrow> queryLoop db rest columnNames list
         | QueryRows cols events \<Rightarrow>
             (let columnNames' = (case cols of Inl err \<Rightarrow> [] | Inr names \<Rightarrow> names)
              in queryLoop db rest columnNames' (scanLoop (length columnNames') events list))))"

text \<open>\<open>columnIdx[n] = i\<close> for each \<open>(i, n)\<close> of \<open>columnNames\<close>: a later index overwrites.\<close>

definition makeColumnIdx :: "string list \<Rightarrow> (string \<rightharpoonup> int)" where
  "makeColumnIdx columnNames =
     fold (\<lambda>(i, n) columnIdx. columnIdx(n \<mapsto> int i)) (enumerate 0 columnNames) Map.empty"

text \<open>The loop over \<open>list\<close>: the metrics of each row are appended, its errors dropped.\<close>

fun rowLoop ::
  "golib \<Rightarrow> getColumn \<Rightarrow> config \<Rightarrow> string list \<Rightarrow> (string \<rightharpoonup> int) \<Rightarrow> dbvalue list list
     \<Rightarrow> QueryInstance \<Rightarrow> Metric list \<Rightarrow> panicval + (Metric list \<times> QueryInstance)" where
  "rowLoop lib gc cfg columnNames columnIdx [] q metrics = Inr (metrics, q)"
| "rowLoop lib gc cfg columnNames columnIdx (row # rest) q metrics =
     (case procRows lib gc cfg q columnNames columnIdx row of
        Inl p \<Rightarrow> Inl p
      | Inr ((metric, errs), q') \<Rightarrow>
          rowLoop lib gc cfg columnNames columnIdx rest q' (metrics @ metric))"

definition getMetric ::
  "golib \<Rightarrow> getColumn \<Rightarrow> config \<Rightarrow> (string \<Rightarrow> queryResult) \<Rightarrow> QueryInstance
     \<Rightarrow> panicval + (Metric list \<times> QueryInstance)" where
  "getMetric lib gc cfg db queryInstance =
     (let (columnNames, list) = queryLoop db (Queries queryInstance) [] [];
          columnIdx = makeColumnIdx columnNames
      in rowLoop lib gc cfg columnNames columnIdx list queryInstance [])"

section \<open>The statements of a definition, as the specification describes them\<close>

text \<open>
  A statement is executed when it is not disabled and the query returns rows; its columns
  are what \<open>rows.Columns()\<close> gave (none on an error), its rows those scanned before the
  first failure of \<open>Scan\<close>.
\<close>

definition enabled :: "Query \<Rightarrow> bool" where
  "enabled query = (Status query \<noteq> ''disable'')"

definition executed :: "(string \<Rightarrow> queryResult) \<Rightarrow> Query \<Rightarrow> bool" where
  "executed db query =
     (enabled query \<and> (case db (SQL query) of QueryRows cols events \<Rightarrow> True | _ \<Rightarrow> False))"

definition statementColumns :: "(string \<Rightarrow> queryResult) \<Rightarrow> Query \<Rightarrow> string list" where
  "statementColumns db query =
     (case db (SQL query) of QueryRows (Inr names) events \<Rightarrow> names | _ \<Rightarrow> [])"

definition statementRows :: "(string \<Rightarrow> queryResult) \<Rightarrow> Query \<Rightarrow> dbvalue list list" where
  "statementRows db query =
     (if executed db query
      then (case db (SQL query) of
              QueryRows cols events \<Rightarrow> scanLoop (length (statementColumns db query)) events []
            | _ \<Rightarrow> [])
      else [])"

text \<open>The column names of the last executed statement; none when no statement was executed.\<close>

definition lastColumns :: "(string \<Rightarrow> queryResult) \<Rightarrow> Query list \<Rightarrow> string list" where
  "lastColumns db queries =
     (let ex = filter (executed db) queries
      in if ex = [] then [] else statementColumns db (last ex))"

text \<open>
  A column descriptor that \<open>newMetric\<close> takes to sample construction: not discarded, not
  a histogram, and its usage not the mapped-metric one.
\<close>

definition eligible :: "golib \<Rightarrow> config \<Rightarrow> Column \<Rightarrow> bool" where
  "eligible lib cfg c =
     (\<not> DisCard c \<and> \<not> Histogram c \<and> \<not> EqualFold lib (Usage c) (MappedMETRIC cfg))"

section \<open>A library and a definition for the examples\<close>

text \<open>
  The answers of the libraries on the inputs of the examples below:
  \<open>strconv.ParseFloat("3", 64)\<close> is 3 and \<open>"N/A"\<close> and \<open>"bad"\<close> do not parse;
  \<open>fmt.Sprintf("%v", 3.0)\<close> is \<open>"3"\<close>; the instant 1700000000.123456789 in UTC formats as
  \<open>2023-11-14T22:13:20.123456789Z\<close>; the UTF-8 decoder replaces each of the two bytes
  \<open>D6 D0\<close> by \<open>U+FFFD\<close>, the GBK decoder reads them as \<open>U+4E2D\<close>.
\<close>

definition exampleDecoderUTF8 :: "string \<Rightarrow> error + string" where
  "exampleDecoderUTF8 b =
     (if b = [CHR 0xD6, CHR 0xD0] then Inr [CHR 0xEF, CHR 0xBF, CHR 0xBD, CHR 0xEF, CHR 0xBF, CHR 0xBD]
      else Inr b)"

definition exampleDecoderGBK :: "string \<Rightarrow> error + string" where
  "exampleDecoderGBK b =
     (if b = [CHR 0xD6, CHR 0xD0] then Inr [CHR 0xE4, CHR 0xB8, CHR 0xAD] else Inr b)"

text \<open>
  \<open>prometheus.MustNewConstMetric\<close> as the client library has it: it panics with the error
  of \<open>NewConstMetric\<close>, which reports the descriptor's error, a number of label values
  other than the descriptor's variable labels, a label value that is not UTF-8, and a
  value type that is none of counter, gauge and untyped. A nil descriptor is a nil
  dereference.
\<close>

definition promMustNewConstMetric ::
  "Desc option \<Rightarrow> ValueType \<Rightarrow> float64 \<Rightarrow> string list \<Rightarrow> panicval + Metric" where
  "promMustNewConstMetric desc valueType value labelValues =
     (case desc of
        None \<Rightarrow> Inl (PanicError (ErrRuntime ''invalid memory address or nil pointer dereference''))
      | Some d \<Rightarrow>
          (case descErr d of
             Some err \<Rightarrow> Inl (PanicError err)
           | None \<Rightarrow>
               if length labelValues \<noteq> length (variableLabels d)
               then Inl (PanicError (ErrLib ''inconsistent label cardinality''))
               else if \<not> list_all ValidString labelValues
               then Inl (PanicError (ErrLib ''label value is not valid UTF-8''))
               else (case valueType of
                       OtherValue n \<Rightarrow> Inl (PanicError (ErrLib ''encountered unknown type''))
                     | _ \<Rightarrow>
                         Inr \<lparr>metricDesc = d, metricType = valueType, metricValue = value,
                              metricLabelValues = labelValues\<rparr>)))"

definition exampleLib :: golib where
  "exampleLib =
     \<lparr>ParseFloat = (\<lambda>s. if s = ''3'' then Some (float64_of_int 3) else None),
      SprintFloat = (\<lambda>v. if v = float64_of_int 3 then ''3'' else ''NaN''),
      FormatRFC3339Nano = (\<lambda>t. ''2023-11-14T22:13:20.123456789Z''),
      ToUpperUnicode = (\<lambda>s. s),
      EqualFoldUnicode = (\<lambda>s t. s = t),
      MIBEncoding = (\<lambda>name.
        if name = ''UTF-8'' then Inr (Some exampleDecoderUTF8)
        else if name = ''GBK'' then Inr (Some exampleDecoderGBK)
        else Inl (ErrLib ''ianaindex: invalid encoding name'')),
      MustNewConstMetric = promMustNewConstMetric\<rparr>"

definition exampleTime :: gotime where
  "exampleTime = \<lparr>Unix = 1700000000, Nanosecond = 123456789, ZoneOffset = 0\<rparr>"

definition exampleConfig :: config where
  "exampleConfig =
     \<lparr>MonitDB = \<lparr>Address = ''127.0.0.1'', Port = 5432, Username = ''gaussdb'',
                 Password = [], Database = ''postgres''\<rparr>,
      MappedMETRIC = ''MAPPEDMETRIC''\<rparr>"

text \<open>
  The definition \<open>pg_database\<close> of the specification's scenario, with the label column
  \<open>datname\<close> (checked for UTF-8, and discarded as a value) and the gauge
  \<open>numbackends\<close>, and three more columns: a counter
  \<open>xact_commit\<close>, a counter \<open>blks_read\<close> whose descriptor was built without the label, and
  a discarded column \<open>age\<close>. Its second statement is disabled.
\<close>

definition numbackendsDesc :: Desc where
  "numbackendsDesc =
     \<lparr>fqName = ''pg_database_numbackends'', descHelp = ''backends'', constLabels = [],
      variableLabels = [''datname''], descErr = None\<rparr>"

definition xactCommitDesc :: Desc where
  "xactCommitDesc =
     \<lparr>fqName = ''pg_database_xact_commit'', descHelp = ''commits'', constLabels = [],
      variableLabels = [''datname''], descErr = None\<rparr>"

definition blksReadDesc :: Desc where
  "blksReadDesc =
     \<lparr>fqName = ''pg_database_blks_read'', descHelp = ''blocks'', constLabels = [],
      variableLabels = [], descErr = None\<rparr>"

definition datnameColumn :: Column where
  "datnameColumn =
     \<lparr>DisCard = True, Histogram = False, Usage = ''LABEL'', CheckUTF8 = True,
      PrometheusDesc = None, PrometheusType = UntypedValue\<rparr>"

definition numbackendsColumn :: Column where
  "numbackendsColumn =
     \<lparr>DisCard = False, Histogram = False, Usage = ''GAUGE'', CheckUTF8 = False,
      PrometheusDesc = Some numbackendsDesc, PrometheusType = GaugeValue\<rparr>"

definition xactCommitColumn :: Column where
  "xactCommitColumn =
     \<lparr>DisCard = False, Histogram = False, Usage = ''COUNTER'', CheckUTF8 = False,
      PrometheusDesc = Some xactCommitDesc, PrometheusType = CounterValue\<rparr>"

definition blksReadColumn :: Column where
  "blksReadColumn =
     \<lparr>DisCard = False, Histogram = False, Usage = ''COUNTER'', CheckUTF8 = False,
      PrometheusDesc = Some blksReadDesc, PrometheusType = CounterValue\<rparr>"

definition ageColumn :: Column where
  "ageColumn =
     \<lparr>DisCard = True, Histogram = False, Usage = ''DISCARD'', CheckUTF8 = False,
      PrometheusDesc = None, PrometheusType = UntypedValue\<rparr>"

definition pgDatabase :: QueryInstance where
  "pgDatabase =
     \<lparr>Name = ''pg_database'',
      Queries = [\<lparr>SQL = ''SELECT datname, numbackends, xact_commit FROM pg_stat_database'',
                  Status = ''enable''\<rparr>,
                 \<lparr>SQL = ''SELECT datname, numbackends, xact_commit FROM old'',
                  Status = ''disable''\<rparr>],
      LabelNames = [''datname''],
      DBNameLabel = [],
      Columns =
        [(''datname'', datnameColumn), (''numbackends'', numbackendsColumn),
         (''xact_commit'', xactCommitColumn), (''blks_read'', blksReadColumn),
         (''age'', ageColumn)]\<rparr>"

definition exampleDb :: "string \<Rightarrow> queryResult" where
  "exampleDb sql =
     (if sql = ''SELECT datname, numbackends, xact_commit FROM pg_stat_database''
      then QueryRows (Inr [''datname'', ''numbackends'', ''xact_commit''])
             [Inr [VString ''postgres'', VInt64 3, VInt64 7],
              Inr [VString ''template1'', VString ''N/A'', VInt64 7]]
      else if sql = ''SELECT datname, numbackends, xact_commit FROM old''
      then QueryRows (Inr [''datname'', ''numbackends'', ''xact_commit''])
             [Inr [VString ''old'', VInt64 1, VInt64 1]]
      else QueryErr (ErrLib ''pq: syntax error''))"

text \<open>
  The same definition with two enabled statements that return the two columns in
  different orders.
\<close>

definition pgSwapped :: QueryInstance where
  "pgSwapped =
     pgDatabase\<lparr>Queries := [\<lparr>SQL = ''SELECT datname, numbackends FROM a'', Status = ''enable''\<rparr>,
                            \<lparr>SQL = ''SELECT numbackends, datname FROM b'', Status = ''enable''\<rparr>]\<rparr>"

definition swappedDb :: "string \<Rightarrow> queryResult" where
  "swappedDb sql =
     (if sql = ''SELECT datname, numbackends FROM a''
      then QueryRows (Inr [''datname'', ''numbackends'']) [Inr [VString ''postgres'', VInt64 3]]
      else if sql = ''SELECT numbackends, datname FROM b''
      then QueryRows (Inr [''numbackends'', ''datname'']) [Inr [VInt64 5, VString ''template1'']]
      else QueryErr (ErrLib ''pq: syntax error''))"

section \<open>Evaluation\<close>

lemma char_of_eq2: "c = char_of n \<longleftrightarrow> take_bit 8 n = of_char c"
  by (metis char_of_eq_iff)

lemmas char_eval = char_of_eq_iff char_of_eq2

lemmas float_eval = float64_of_int_def float64_mantissa_def Let_def

section \<open>The coercion layer\<close>

lemma show_nat_length_le3: "n < 1000 \<Longrightarrow> length (show_nat n) \<le> 3"
proof -
  assume n: "n < 1000"
  have a: "\<And>m. m < 10 \<Longrightarrow> length (show_nat m) = 1" by simp
  have b: "\<And>m. m < 100 \<Longrightarrow> length (show_nat m) \<le> 2"
  proof -
    fix m :: nat assume "m < 100"
    then have "m div 10 < 10" by simp
    then have "length (show_nat (m div 10)) = 1" by (rule a)
    then show "length (show_nat m) \<le> 2" by (subst show_nat.simps) simp
  qed
  from n have "n div 10 < 100" by simp
  then have "length (show_nat (n div 10)) \<le> 2" by (rule b)
  then show ?thesis by (subst show_nat.simps) simp
qed

lemma fmt_03d_length: "n < 1000 \<Longrightarrow> length (fmt_03d n) = 3"
  using show_nat_length_le3 [of n] by (simp add: fmt_03d_def)

text \<open>
  C1. \<open>DbToFloat64\<close>, kind by kind: an integer gives its conversion to float64 and a
  timestamp that of its Unix seconds, a float is passed through, a boolean gives 1.0 or
  0.0, null gives NaN, all with \<open>ok = true\<close>; text and bytes give what \<open>ParseFloat\<close> parses
  with \<open>ok = true\<close>, or NaN with \<open>ok = false\<close> when it fails; any other kind gives NaN with
  \<open>ok = false\<close>. So \<open>ok = false\<close> occurs exactly for text or bytes that do not parse and
  for an unknown kind, and then the value is NaN.
\<close>

theorem DbToFloat64_contract:
  "DbToFloat64 lib (VInt64 i) = (float64_of_int (sint i), True) \<and>
   DbToFloat64 lib (VFloat64 f) = (f, True) \<and>
   DbToFloat64 lib (VTime t) = (float64_of_int (sint (Unix t)), True) \<and>
   DbToFloat64 lib (VBool True) = (Float64frombits 0x3FF0000000000000, True) \<and>
   DbToFloat64 lib (VBool False) = (Float64frombits 0, True) \<and>
   DbToFloat64 lib VNil = (NaN, True) \<and>
   DbToFloat64 lib (VString s) =
     (case ParseFloat lib s of Some r \<Rightarrow> (r, True) | None \<Rightarrow> (NaN, False)) \<and>
   DbToFloat64 lib (VBytes s) =
     (case ParseFloat lib s of Some r \<Rightarrow> (r, True) | None \<Rightarrow> (NaN, False)) \<and>
   DbToFloat64 lib (VOther ty) = (NaN, False) \<and>
   (snd (DbToFloat64 lib v) = False \<longleftrightarrow>
      (\<exists>s. (v = VString s \<or> v = VBytes s) \<and> ParseFloat lib s = None) \<or> (\<exists>ty. v = VOther ty)) \<and>
   (snd (DbToFloat64 lib v) = False \<longrightarrow> fst (DbToFloat64 lib v) = NaN)"
proof -
  have ok: "snd (DbToFloat64 lib v) = False \<longleftrightarrow>
      (\<exists>s. (v = VString s \<or> v = VBytes s) \<and> ParseFloat lib s = None) \<or> (\<exists>ty. v = VOther ty)"
    by (cases v) (auto split: option.splits)
  have nan: "snd (DbToFloat64 lib v) = False \<longrightarrow> fst (DbToFloat64 lib v) = NaN"
    by (cases v) (auto split: option.splits)
  show ?thesis
    using ok nan by (simp split: option.splits)
qed

theorem DbToFloat64_contract_witness:
  "DbToFloat64 exampleLib (VInt64 3) = (Float64frombits 0x4008000000000000, True) \<and>
   DbToFloat64 exampleLib (VTime exampleTime) = (Float64frombits 0x41D954FC40000000, True) \<and>
   DbToFloat64 exampleLib (VString ''3'') = (Float64frombits 0x4008000000000000, True) \<and>
   DbToFloat64 exampleLib (VBytes ''N/A'') = (NaN, False) \<and>
   snd (DbToFloat64 exampleLib (VOther ''int32'')) = False \<and>
   fst (DbToFloat64 exampleLib (VOther ''int32'')) = NaN"
  using DbToFloat64_contract [of exampleLib 3 "Float64frombits 0" exampleTime "''N/A''"
      "''int32''" "VOther ''int32''"]
  by (simp add: exampleLib_def exampleTime_def float_eval)

text \<open>
  C7. \<open>DbToString\<close>, kind by kind: an integer gives its decimal rendering and a float the
  library's rendering; a timestamp gives the RFC3339Nano string when \<open>time2string\<close> is
  set and otherwise its Unix seconds followed by the milliseconds padded to three digits
  (exactly three for a nanosecond field below one second); null gives the empty string;
  bytes and text are passed through; a boolean gives \<open>true\<close> or \<open>false\<close>; all with
  \<open>ok = true\<close>. Any other kind gives the empty string with \<open>ok = false\<close>.
\<close>

theorem DbToString_contract:
  "DbToString lib (VInt64 i) b = (show_int (sint i), True) \<and>
   DbToString lib (VFloat64 f) b = (SprintFloat lib f, True) \<and>
   DbToString lib (VTime t) True = (FormatRFC3339Nano lib t, True) \<and>
   DbToString lib (VTime t) False =
     (show_int (sint (Unix t)) @ fmt_03d (Nanosecond t div 1000000), True) \<and>
   (Nanosecond t < 1000000000 \<longrightarrow> length (fmt_03d (Nanosecond t div 1000000)) = 3) \<and>
   DbToString lib VNil b = ([], True) \<and>
   DbToString lib (VBytes s) b = (s, True) \<and>
   DbToString lib (VString s) b = (s, True) \<and>
   DbToString lib (VBool True) b = (''true'', True) \<and>
   DbToString lib (VBool False) b = (''false'', True) \<and>
   DbToString lib (VOther ty) b = ([], False)"
proof -
  have "Nanosecond t < 1000000000 \<longrightarrow> length (fmt_03d (Nanosecond t div 1000000)) = 3"
  proof
    assume "Nanosecond t < 1000000000"
    then have "Nanosecond t div 1000000 < 1000" by simp
    then show "length (fmt_03d (Nanosecond t div 1000000)) = 3" by (rule fmt_03d_length)
  qed
  then show ?thesis by simp
qed

theorem DbToString_contract_witness:
  "DbToString exampleLib (VInt64 (- 120)) False = (''-120'', True) \<and>
   DbToString exampleLib (VFloat64 (float64_of_int 3)) False = (''3'', True) \<and>
   DbToString exampleLib (VTime exampleTime) True = (''2023-11-14T22:13:20.123456789Z'', True) \<and>
   DbToString exampleLib (VTime exampleTime) False = (''1700000000123'', True) \<and>
   Nanosecond exampleTime < 1000000000 \<and>
   length (fmt_03d (Nanosecond exampleTime div 1000000)) = 3 \<and>
   DbToString exampleLib (VOther ''int32'') True = ([], False)"
  using DbToString_contract [of exampleLib "- 120" False "float64_of_int 3" exampleTime
      "''x''" "''int32''"]
  by (simp add: exampleLib_def exampleTime_def show_int_def fmt_03d_def digit_char_def char_eval)

section \<open>The examples, evaluated\<close>

lemma pgDatabase_fields:
  "Name pgDatabase = ''pg_database''"
  "LabelNames pgDatabase = [''datname'']"
  "DBNameLabel pgDatabase = []"
  by (simp_all add: pgDatabase_def)

lemma GetColumn_pgDatabase:
  "GetColumn pgDatabase ''datname'' l = (Some datnameColumn, pgDatabase)"
  "GetColumn pgDatabase ''numbackends'' l =
     (Some (numbackendsColumn\<lparr>PrometheusDesc := Some (numbackendsDesc\<lparr>constLabels := l\<rparr>)\<rparr>), pgDatabase)"
  "GetColumn pgDatabase ''xact_commit'' l =
     (Some (xactCommitColumn\<lparr>PrometheusDesc := Some (xactCommitDesc\<lparr>constLabels := l\<rparr>)\<rparr>), pgDatabase)"
  "GetColumn pgDatabase ''blks_read'' l =
     (Some (blksReadColumn\<lparr>PrometheusDesc := Some (blksReadDesc\<lparr>constLabels := l\<rparr>)\<rparr>), pgDatabase)"
  "GetColumn pgDatabase ''age'' l = (Some ageColumn, pgDatabase)"
  "GetColumn pgDatabase ''oid'' l = (None, pgDatabase)"
  by (simp_all add: GetColumn_def pgDatabase_def datnameColumn_def numbackendsColumn_def
      xactCommitColumn_def blksReadColumn_def ageColumn_def numbackendsDesc_def
      xactCommitDesc_def blksReadDesc_def)

lemma eligible_examples:
  "eligible exampleLib exampleConfig (numbackendsColumn\<lparr>PrometheusDesc := d\<rparr>)"
  "eligible exampleLib exampleConfig (xactCommitColumn\<lparr>PrometheusDesc := d\<rparr>)"
  "eligible exampleLib exampleConfig (blksReadColumn\<lparr>PrometheusDesc := d\<rparr>)"
  "\<not> eligible exampleLib exampleConfig ageColumn"
  by (simp_all add: eligible_def numbackendsColumn_def xactCommitColumn_def blksReadColumn_def
      ageColumn_def exampleConfig_def EqualFold_def isASCII_def ascii_lower_def char_eval)

lemma decode_datname:
  "decode exampleLib GetColumn exampleConfig pgDatabase (VString ''postgres'') ''datname'' dbName =
     Inr ((''postgres'', None), pgDatabase)"
  "decode exampleLib GetColumn exampleConfig pgDatabase (VString ''template1'') ''datname'' dbName =
     Inr ((''template1'', None), pgDatabase)"
  by (simp_all add: decode_def GetColumn_pgDatabase datnameColumn_def ValidString_def)

lemma rowLabels_examples:
  "rowLabels exampleLib GetColumn exampleConfig pgDatabase columnIdx (VString ''postgres'' # row) =
     Inr ([''postgres''], pgDatabase)" (is ?a)
  "rowLabels exampleLib GetColumn exampleConfig pgDatabase columnIdx (VString ''template1'' # row) =
     Inr ([''template1''], pgDatabase)" (is ?b)
  if "mapIndex columnIdx ''datname'' = 0"
  using that by (simp_all add: rowLabels_def pgDatabase_fields index_def decode_datname)

lemma serverLabels_example: "serverLabels exampleConfig = [(''server'', ''127.0.0.1:5432'')]"
  by (simp add: serverLabels_def exampleConfig_def show_int_def digit_char_def char_eval)

lemma newMetric_xact_commit:
  "newMetric exampleLib exampleConfig pgDatabase
     (Some (xactCommitColumn\<lparr>PrometheusDesc := Some (xactCommitDesc\<lparr>constLabels := l\<rparr>)\<rparr>))
     ''xact_commit'' (VInt64 7) [''template1''] =
   (Some \<lparr>metricDesc = xactCommitDesc\<lparr>constLabels := l\<rparr>, metricType = CounterValue,
           metricValue = float64_of_int 7, metricLabelValues = [''template1'']\<rparr>, None)"
  using eligible_examples(2) [of "Some (xactCommitDesc\<lparr>constLabels := l\<rparr>)"]
  apply (simp add: newMetric_def eligible_def)
  apply (simp add: exampleLib_def promMustNewConstMetric_def xactCommitColumn_def)
  apply (simp add: ValidString_def)
  apply (simp add: xactCommitDesc_def)
  done


section \<open>The column loop\<close>

lemma columnLoop_prefix:
  "columnLoop lib gc cfg row labels cols q (ms0 @ ms) (es0 @ es) =
     (case columnLoop lib gc cfg row labels cols q ms es of
        Inl p \<Rightarrow> Inl p
      | Inr ((ms', es'), q') \<Rightarrow> Inr ((ms0 @ ms', es0 @ es'), q'))"
proof (induction cols arbitrary: q ms es)
  case Nil
  show ?case by simp
next
  case (Cons c cols)
  obtain idx name where c: "c = (idx, name)" by (cases c)
  obtain col q1 where g: "gc q name (serverLabels cfg) = (col, q1)"
    by (cases "gc q name (serverLabels cfg)")
  show ?case
  proof (cases "index row (int idx)")
    case (Inl p)
    then show ?thesis by (simp add: c g)
  next
    case (Inr v)
    obtain m e where n: "newMetric lib cfg q1 col name v labels = (m, e)"
      by (cases "newMetric lib cfg q1 col name v labels")
    show ?thesis
    proof (cases e)
      case (Some err)
      with Cons.IH [of q1 ms "es @ [err]"] show ?thesis
        by (cases m) (simp_all add: c g Inr n)
    next
      case None
      show ?thesis
      proof (cases m)
        case (Some metric)
        with None Cons.IH [of q1 "ms @ [metric]" es] show ?thesis
          by (simp add: c g Inr n)
      next
        case nm: None
        with None Cons.IH [of q1 ms es] show ?thesis
          by (simp add: c g Inr n)
      qed
    qed
  qed
qed

lemma columnLoop_acc:
  "columnLoop lib gc cfg row labels cols q ms es =
     (case columnLoop lib gc cfg row labels cols q [] [] of
        Inl p \<Rightarrow> Inl p
      | Inr ((ms', es'), q') \<Rightarrow> Inr ((ms @ ms', es @ es'), q'))"
  using columnLoop_prefix [of lib gc cfg row labels cols q ms "[]" es "[]"] by simp

lemma columnLoop_append:
  "columnLoop lib gc cfg row labels (xs @ ys) q ms es =
     (case columnLoop lib gc cfg row labels xs q ms es of
        Inl p \<Rightarrow> Inl p
      | Inr ((ms', es'), q') \<Rightarrow> columnLoop lib gc cfg row labels ys q' ms' es')"
proof (induction xs arbitrary: q ms es)
  case Nil
  show ?case by simp
next
  case (Cons c xs)
  show ?case
    by (cases c) (simp add: Cons.IH split: prod.splits sum.splits option.splits)
qed

lemma newMetric_unparsed:
  assumes "eligible lib cfg c" and "snd (DbToFloat64 lib v) = False"
  shows "newMetric lib cfg q (Some c) name v labels = (None, Some (ErrParsingColumn (Name q) name v))"
  using assms by (cases "DbToFloat64 lib v") (simp add: newMetric_def eligible_def)

text \<open>
  C2. In \<open>procRows\<close>, a column that reaches the coercion (its descriptor is declared and
  eligible) and whose value \<open>DbToFloat64\<close> rejects makes \<open>newMetric\<close> return no sample
  and the error naming the metric and the column. The row goes on: the result of the
  call is the samples and errors of the columns before, exactly that one error, then the
  samples and errors of the columns after, which are processed as they would be alone.
\<close>

theorem procRows_unparsed_column:
  assumes labels: "rowLabels lib gc cfg q columnIdx row = Inr (labels, q0)"
    and before: "columnLoop lib gc cfg row labels (enumerate 0 pre) q0 [] [] = Inr ((ms1, es1), q1)"
    and col: "gc q1 name (serverLabels cfg) = (Some c, q2)"
    and elig: "eligible lib cfg c"
    and val: "index row (int (length pre)) = Inr v"
    and bad: "snd (DbToFloat64 lib v) = False"
  shows "newMetric lib cfg q2 (Some c) name v labels =
           (None, Some (ErrParsingColumn (Name q2) name v)) \<and>
         procRows lib gc cfg q (pre @ name # post) columnIdx row =
           (case columnLoop lib gc cfg row labels (enumerate (Suc (length pre)) post) q2 [] [] of
              Inl p \<Rightarrow> Inl p
            | Inr ((ms3, es3), q3) \<Rightarrow>
                Inr ((ms1 @ ms3, es1 @ [ErrParsingColumn (Name q2) name v] @ es3), q3))"
proof -
  have nm: "newMetric lib cfg q2 (Some c) name v labels =
      (None, Some (ErrParsingColumn (Name q2) name v))"
    using elig bad by (rule newMetric_unparsed)
  have en: "enumerate 0 (pre @ name # post) =
      enumerate 0 pre @ (length pre, name) # enumerate (Suc (length pre)) post"
    by (simp add: enumerate_append_eq)
  have step: "columnLoop lib gc cfg row labels ((length pre, name) # enumerate (Suc (length pre)) post)
        q1 ms1 es1 =
      columnLoop lib gc cfg row labels (enumerate (Suc (length pre)) post) q2 ms1
        (es1 @ [ErrParsingColumn (Name q2) name v])"
    by (simp add: col val nm)
  have "procRows lib gc cfg q (pre @ name # post) columnIdx row =
      columnLoop lib gc cfg row labels (enumerate (Suc (length pre)) post) q2 ms1
        (es1 @ [ErrParsingColumn (Name q2) name v])"
    by (simp add: procRows_def labels en columnLoop_append before step del: columnLoop.simps)
  also have "\<dots> = (case columnLoop lib gc cfg row labels (enumerate (Suc (length pre)) post) q2 [] [] of
              Inl p \<Rightarrow> Inl p
            | Inr ((ms3, es3), q3) \<Rightarrow>
                Inr ((ms1 @ ms3, es1 @ [ErrParsingColumn (Name q2) name v] @ es3), q3))"
    by (subst columnLoop_acc) (simp split: sum.splits)
  finally show ?thesis using nm by simp
qed


theorem procRows_unparsed_column_witness:
  "snd (DbToFloat64 exampleLib (VString ''N/A'')) = False \<and>
   procRows exampleLib GetColumn exampleConfig pgDatabase [''datname'', ''numbackends'', ''xact_commit'']
     (makeColumnIdx [''datname'', ''numbackends'', ''xact_commit''])
     [VString ''template1'', VString ''N/A'', VInt64 7] =
   Inr (([\<lparr>metricDesc = xactCommitDesc\<lparr>constLabels := serverLabels exampleConfig\<rparr>,
            metricType = CounterValue, metricValue = float64_of_int 7,
            metricLabelValues = [''template1'']\<rparr>],
         [ErrParsingColumn ''pg_database'' ''numbackends'' (VString ''N/A'')]), pgDatabase)"
proof -
  let ?row = "[VString ''template1'', VString ''N/A'', VInt64 7]"
  let ?idx = "makeColumnIdx [''datname'', ''numbackends'', ''xact_commit'']"
  let ?c = "numbackendsColumn\<lparr>PrometheusDesc :=
      Some (numbackendsDesc\<lparr>constLabels := serverLabels exampleConfig\<rparr>)\<rparr>"
  have h1: "rowLabels exampleLib GetColumn exampleConfig pgDatabase ?idx ?row =
      Inr ([''template1''], pgDatabase)"
    by (rule rowLabels_examples) (simp add: makeColumnIdx_def mapIndex_def)
  have h2: "columnLoop exampleLib GetColumn exampleConfig ?row [''template1'']
      (enumerate 0 [''datname'']) pgDatabase [] [] = Inr (([], []), pgDatabase)"
    by (simp add: GetColumn_pgDatabase index_def newMetric_def datnameColumn_def)
  have h3: "GetColumn pgDatabase ''numbackends'' (serverLabels exampleConfig) = (Some ?c, pgDatabase)"
    by (simp add: GetColumn_pgDatabase)
  have h4: "eligible exampleLib exampleConfig ?c"
    by (rule eligible_examples)
  have h5: "index ?row (int (length [''datname''])) = Inr (VString ''N/A'')"
    by (simp add: index_def)
  have h6: "snd (DbToFloat64 exampleLib (VString ''N/A'')) = False"
    by (simp add: exampleLib_def)
  have h7: "columnLoop exampleLib GetColumn exampleConfig ?row [''template1'']
      (enumerate (Suc (length [''datname''])) [''xact_commit'']) pgDatabase [] [] =
      Inr (([\<lparr>metricDesc = xactCommitDesc\<lparr>constLabels := serverLabels exampleConfig\<rparr>,
            metricType = CounterValue, metricValue = float64_of_int 7,
            metricLabelValues = [''template1'']\<rparr>], []), pgDatabase)"
    by (simp add: GetColumn_pgDatabase index_def newMetric_xact_commit)
  from procRows_unparsed_column [OF h1 h2 h3 h4 h5 h6, of "[''xact_commit'']"] h6 h7
  show ?thesis by (simp add: pgDatabase_fields)
qed

text \<open>
  C3. A column for which \<open>GetColumn\<close> returns nil, or whose descriptor is marked discard
  or histogram or has the mapped-metric usage, gives no sample and no error in
  \<open>newMetric\<close>, whatever its value; the column loop goes on with \<open>metrics\<close> and
  \<open>nonfatalErrors\<close> as they were. An undeclared column is skipped, never exposed.
\<close>

theorem newMetric_skips_column:
  assumes skip: "col = None \<or>
      (\<exists>c. col = Some c \<and> (DisCard c \<or> Histogram c \<or> EqualFold lib (Usage c) (MappedMETRIC cfg)))"
    and get: "gc q columnName (serverLabels cfg) = (col, q')"
    and val: "index columnData (int idx) = Inr colValue"
  shows "newMetric lib cfg q' col columnName colValue labels = (None, None) \<and>
         columnLoop lib gc cfg columnData labels ((idx, columnName) # rest) q metrics errs =
           columnLoop lib gc cfg columnData labels rest q' metrics errs"
proof -
  have "newMetric lib cfg q' col columnName colValue labels = (None, None)"
    using skip by (auto simp: newMetric_def)
  then show ?thesis by (simp add: get val)
qed

theorem newMetric_skips_column_witness:
  "GetColumn pgDatabase ''oid'' (serverLabels exampleConfig) = (None, pgDatabase) \<and>
   GetColumn pgDatabase ''age'' (serverLabels exampleConfig) = (Some ageColumn, pgDatabase) \<and>
   DisCard ageColumn \<and>
   newMetric exampleLib exampleConfig pgDatabase None ''oid'' (VInt64 3) [''postgres''] = (None, None) \<and>
   newMetric exampleLib exampleConfig pgDatabase (Some ageColumn) ''age'' (VInt64 3) [''postgres''] =
     (None, None) \<and>
   columnLoop exampleLib GetColumn exampleConfig [VInt64 3, VInt64 3] [''postgres'']
     [(0, ''oid''), (1, ''age'')] pgDatabase [] [] = Inr (([], []), pgDatabase)"
proof -
  let ?row = "[VInt64 3, VInt64 3]"
  have g1: "GetColumn pgDatabase ''oid'' (serverLabels exampleConfig) = (None, pgDatabase)"
    and g2: "GetColumn pgDatabase ''age'' (serverLabels exampleConfig) = (Some ageColumn, pgDatabase)"
    by (simp_all add: GetColumn_pgDatabase)
  have d: "DisCard ageColumn" by (simp add: ageColumn_def)
  have s1: "None = None \<or>
      (\<exists>c. None = Some c \<and> (DisCard c \<or> Histogram c \<or>
         EqualFold exampleLib (Usage c) (MappedMETRIC exampleConfig)))"
    by simp
  have s2: "Some ageColumn = None \<or>
      (\<exists>c. Some ageColumn = Some c \<and> (DisCard c \<or> Histogram c \<or>
         EqualFold exampleLib (Usage c) (MappedMETRIC exampleConfig)))"
    using d by simp
  have i1: "index ?row (int 0) = Inr (VInt64 3)" and i2: "index ?row (int 1) = Inr (VInt64 3)"
    by (simp_all add: index_def)
  note a = newMetric_skips_column [where gc = GetColumn and q = pgDatabase and q' = pgDatabase
      and lib = exampleLib and cfg = exampleConfig and columnData = ?row
      and labels = "[''postgres'']" and metrics = "[]" and errs = "[]"]
  from a [where col = None and columnName = "''oid''" and idx = 0 and rest = "[(1, ''age'')]", OF s1 g1 i1]
    a [where col = "Some ageColumn" and columnName = "''age''" and idx = 1 and rest = "[]", OF s2 g2 i2]
    g1 g2 d
  show ?thesis by simp
qed

text \<open>
  C8. Once the coercion has succeeded, a panic of \<open>MustNewConstMetric\<close> does not leave
  \<open>newMetric\<close>: the deferred \<open>RecoverErr\<close> turns it into the returned error (the error
  panicked with, or an "unexpected error" for any other value) and no sample is returned.
  The column loop appends that error and goes on with the next column.
\<close>

theorem newMetric_recovers_panic:
  assumes get: "gc q columnName (serverLabels cfg) = (Some c, q')"
    and elig: "eligible lib cfg c"
    and val: "index columnData (int idx) = Inr colValue"
    and ok: "DbToFloat64 lib colValue = (value, True)"
    and panic: "MustNewConstMetric lib (PrometheusDesc c) (PrometheusType c) value labels = Inl p"
  shows "newMetric lib cfg q' (Some c) columnName colValue labels =
           (None, Some (case p of PanicError e \<Rightarrow> e | PanicValue x \<Rightarrow> ErrUnexpected x)) \<and>
         columnLoop lib gc cfg columnData labels ((idx, columnName) # rest) q metrics errs =
           columnLoop lib gc cfg columnData labels rest q' metrics
             (errs @ [case p of PanicError e \<Rightarrow> e | PanicValue x \<Rightarrow> ErrUnexpected x])"
proof -
  have "newMetric lib cfg q' (Some c) columnName colValue labels =
      (None, Some (case p of PanicError e \<Rightarrow> e | PanicValue x \<Rightarrow> ErrUnexpected x))"
    using elig ok panic by (cases p) (simp_all add: newMetric_def eligible_def)
  then show ?thesis by (simp add: get val)
qed

theorem newMetric_recovers_panic_witness:
  "DbToFloat64 exampleLib (VInt64 7) = (float64_of_int 7, True) \<and>
   MustNewConstMetric exampleLib (Some (blksReadDesc\<lparr>constLabels := serverLabels exampleConfig\<rparr>))
     CounterValue (float64_of_int 7) [''postgres''] =
     Inl (PanicError (ErrLib ''inconsistent label cardinality'')) \<and>
   newMetric exampleLib exampleConfig pgDatabase
     (Some (blksReadColumn\<lparr>PrometheusDesc :=
        Some (blksReadDesc\<lparr>constLabels := serverLabels exampleConfig\<rparr>)\<rparr>))
     ''blks_read'' (VInt64 7) [''postgres''] =
     (None, Some (ErrLib ''inconsistent label cardinality'')) \<and>
   columnLoop exampleLib GetColumn exampleConfig [VInt64 7] [''postgres''] [(0, ''blks_read'')]
     pgDatabase [] [] = Inr (([], [ErrLib ''inconsistent label cardinality'']), pgDatabase)"
proof -
  let ?c = "blksReadColumn\<lparr>PrometheusDesc :=
      Some (blksReadDesc\<lparr>constLabels := serverLabels exampleConfig\<rparr>)\<rparr>"
  have g: "GetColumn pgDatabase ''blks_read'' (serverLabels exampleConfig) = (Some ?c, pgDatabase)"
    by (simp add: GetColumn_pgDatabase)
  have e: "eligible exampleLib exampleConfig ?c" by (rule eligible_examples)
  have i: "index [VInt64 7] (int 0) = Inr (VInt64 7)" by (simp add: index_def)
  have f: "DbToFloat64 exampleLib (VInt64 7) = (float64_of_int 7, True)" by simp
  have m: "MustNewConstMetric exampleLib (Some (blksReadDesc\<lparr>constLabels := serverLabels exampleConfig\<rparr>))
      CounterValue (float64_of_int 7) [''postgres''] =
      Inl (PanicError (ErrLib ''inconsistent label cardinality''))"
    by (simp add: exampleLib_def promMustNewConstMetric_def blksReadDesc_def)
  have m': "MustNewConstMetric exampleLib (PrometheusDesc ?c) (PrometheusType ?c) (float64_of_int 7)
      [''postgres''] = Inl (PanicError (ErrLib ''inconsistent label cardinality''))"
    using m by (simp add: blksReadColumn_def)
  from newMetric_recovers_panic [where gc = GetColumn and q = pgDatabase and q' = pgDatabase
      and lib = exampleLib and cfg = exampleConfig and columnData = "[VInt64 7]" and c = ?c
      and columnName = "''blks_read''" and idx = 0 and labels = "[''postgres'']"
      and rest = "[]" and metrics = "[]" and errs = "[]", OF g e i f m'] f m
  show ?thesis by simp
qed

section \<open>The encoding check\<close>

lemma GetMapCharset_known:
  "GetMapCharset lib ''UTF8'' = ''UTF-8''"
  "GetMapCharset lib ''GBK'' = ''GBK''"
  "GetMapCharset lib ''GB18030'' = ''GBK''"
  by (simp_all add: GetMapCharset_def CharSetMap_def UTF8_def UTF8Underline_def GBK_def
      GB18030_def ToUpper_def isASCII_def ascii_upper_def)

lemma DecodeByte_UTF8:
  "DecodeByte lib v ''UTF8'' =
     (case MIBEncoding lib ''UTF-8'' of
        Inl err \<Rightarrow> Inr (v, Some err)
      | Inr None \<Rightarrow> Inl (PanicError (ErrRuntime ''invalid memory address or nil pointer dereference''))
      | Inr (Some enc) \<Rightarrow> (case enc v of Inl err \<Rightarrow> Inr (v, Some err) | Inr tmp \<Rightarrow> Inr (tmp, None)))"
  by (simp add: DecodeByte_def GetMapCharset_known)

lemma DbToString_MIBEncoding:
  "DbToString (lib\<lparr>MIBEncoding := m\<rparr>) d b = DbToString lib d b"
  by (cases d) simp_all

text \<open>
  C5 (amended). \<open>decode\<close> returns the text of the value unchanged when \<open>GetColumn\<close> finds
  no descriptor for the label, or the descriptor does not ask for the UTF-8 check, or the
  text is valid UTF-8; otherwise the empty string when \<open>dbName\<close> is empty; otherwise what
  the library's decoder for \<open>UTF-8\<close> makes of it, and the empty string when that decoder
  (or its lookup) fails. The error it returns is nil in every case. The character set
  \<open>decode\<close> hands to \<open>DecodeByte\<close> is always the literal \<open>UTF8\<close>: no other encoding is ever
  looked up, so whatever the library has for \<open>GBK\<close> or any other name does not change the
  result. The library is assumed to have an encoding for \<open>UTF-8\<close> (not a nil one).
\<close>

theorem decode_utf8_only:
  assumes get: "gc q label (serverLabels cfg) = (col, q')"
    and utf8: "MIBEncoding lib ''UTF-8'' \<noteq> Inr None"
    and other: "name \<noteq> ''UTF-8''"
  shows "decode lib gc cfg q data label dbName =
           Inr ((let v = fst (DbToString lib data False) in
                 if (case col of None \<Rightarrow> True | Some c \<Rightarrow> \<not> CheckUTF8 c) \<or> ValidString v then v
                 else if dbName = [] then []
                 else (case MIBEncoding lib ''UTF-8'' of
                         Inr (Some enc) \<Rightarrow> (case enc v of Inr b \<Rightarrow> b | Inl err \<Rightarrow> [])
                       | _ \<Rightarrow> []),
                 None), q') \<and>
         decode (lib\<lparr>MIBEncoding := (MIBEncoding lib)(name := e)\<rparr>) gc cfg q data label dbName =
           decode lib gc cfg q data label dbName"
proof -
  let ?v = "fst (DbToString lib data False)"
  have main: "decode lib gc cfg q data label dbName =
           Inr ((let v = fst (DbToString lib data False) in
                 if (case col of None \<Rightarrow> True | Some c \<Rightarrow> \<not> CheckUTF8 c) \<or> ValidString v then v
                 else if dbName = [] then []
                 else (case MIBEncoding lib ''UTF-8'' of
                         Inr (Some enc) \<Rightarrow> (case enc v of Inr b \<Rightarrow> b | Inl err \<Rightarrow> [])
                       | _ \<Rightarrow> []),
                 None), q')"
  proof (cases col)
    case None
    then show ?thesis by (simp add: decode_def get)
  next
    case (Some c)
    show ?thesis
    proof (cases "MIBEncoding lib ''UTF-8''")
      case (Inl err)
      then show ?thesis by (simp add: decode_def get Some DecodeByte_UTF8 Let_def)
    next
      case (Inr e')
      with utf8 obtain enc where e': "e' = Some enc" by (cases e') auto
      show ?thesis
        by (cases "enc ?v") (simp_all add: decode_def get Some DecodeByte_UTF8 Let_def Inr e')
    qed
  qed
  have same: "decode (lib\<lparr>MIBEncoding := (MIBEncoding lib)(name := e)\<rparr>) gc cfg q data label dbName =
      decode lib gc cfg q data label dbName"
  proof -
    have db: "DecodeByte (lib\<lparr>MIBEncoding := (MIBEncoding lib)(name := e)\<rparr>) v ''UTF8'' =
        DecodeByte lib v ''UTF8''" for v
      using other by (simp add: DecodeByte_UTF8)
    show ?thesis
      unfolding decode_def DbToString_MIBEncoding db by (rule refl)
  qed
  from main same show ?thesis by simp
qed

theorem decode_utf8_only_witness:
  "\<not> ValidString [CHR 0xD6, CHR 0xD0] \<and>
   ''GBK'' \<noteq> ''UTF-8'' \<and>
   decode exampleLib GetColumn exampleConfig pgDatabase (VBytes [CHR 0xD6, CHR 0xD0]) ''datname''
     ''postgres'' =
     Inr (([CHR 0xEF, CHR 0xBF, CHR 0xBD, CHR 0xEF, CHR 0xBF, CHR 0xBD], None), pgDatabase) \<and>
   decode (exampleLib\<lparr>MIBEncoding := (MIBEncoding exampleLib)(''GBK'' := Inl (ErrLib ''no GBK''))\<rparr>)
     GetColumn exampleConfig pgDatabase (VBytes [CHR 0xD6, CHR 0xD0]) ''datname'' ''postgres'' =
     Inr (([CHR 0xEF, CHR 0xBF, CHR 0xBD, CHR 0xEF, CHR 0xBF, CHR 0xBD], None), pgDatabase) \<and>
   decode exampleLib GetColumn exampleConfig pgDatabase (VBytes [CHR 0xD6, CHR 0xD0]) ''datname'' [] =
     Inr (([], None), pgDatabase) \<and>
   decode exampleLib GetColumn exampleConfig pgDatabase (VBytes [CHR 0xD6, CHR 0xD0]) ''oid'' [] =
     Inr (([CHR 0xD6, CHR 0xD0], None), pgDatabase) \<and>
   decode exampleLib GetColumn exampleConfig pgDatabase (VString ''postgres'') ''datname'' [] =
     Inr ((''postgres'', None), pgDatabase)"
proof -
  have g: "GetColumn pgDatabase ''datname'' (serverLabels exampleConfig) = (Some datnameColumn, pgDatabase)"
    and g': "GetColumn pgDatabase ''oid'' (serverLabels exampleConfig) = (None, pgDatabase)"
    by (simp_all add: GetColumn_pgDatabase)
  have u: "MIBEncoding exampleLib ''UTF-8'' \<noteq> Inr None"
    by (simp add: exampleLib_def)
  have o: "''GBK'' \<noteq> ''UTF-8''" by simp
  have bad: "\<not> ValidString [CHR 0xD6, CHR 0xD0]" and good: "ValidString ''postgres''"
    by (simp_all add: ValidString_def cont_def)
  have c: "CheckUTF8 datnameColumn" by (simp add: datnameColumn_def)
  have e: "MIBEncoding exampleLib ''UTF-8'' = Inr (Some exampleDecoderUTF8)"
    by (simp add: exampleLib_def)
  note d = decode_utf8_only [where gc = GetColumn and q = pgDatabase and q' = pgDatabase
      and lib = exampleLib and cfg = exampleConfig and name = "''GBK''"
      and e = "Inl (ErrLib ''no GBK'')"]
  from d [where label = "''datname''" and data = "VBytes [CHR 0xD6, CHR 0xD0]"
        and dbName = "''postgres''", OF g u o]
    d [where label = "''datname''" and data = "VBytes [CHR 0xD6, CHR 0xD0]" and dbName = "[]", OF g u o]
    d [where label = "''oid''" and data = "VBytes [CHR 0xD6, CHR 0xD0]" and dbName = "[]", OF g' u o]
    d [where label = "''datname''" and data = "VString ''postgres''" and dbName = "[]", OF g u o]
    bad good c
  show ?thesis by (simp add: e exampleDecoderUTF8_def)
qed

text \<open>
  The text \<open>D6 D0\<close> is the GBK encoding of \<open>U+4E2D\<close>, and \<open>DecodeByte\<close> transcodes it when
  asked for \<open>GBK\<close> or \<open>GB18030\<close>. \<open>decode\<close> does not ask: with the UTF-8 check required and
  a database name present it returns two replacement characters, not the transcoded text.
\<close>

theorem decode_gbk_counterexample:
  "DecodeByte exampleLib [CHR 0xD6, CHR 0xD0] GBK = Inr ([CHR 0xE4, CHR 0xB8, CHR 0xAD], None) \<and>
   DecodeByte exampleLib [CHR 0xD6, CHR 0xD0] GB18030 = Inr ([CHR 0xE4, CHR 0xB8, CHR 0xAD], None) \<and>
   CheckUTF8 datnameColumn \<and>
   \<not> ValidString [CHR 0xD6, CHR 0xD0] \<and>
   decode exampleLib GetColumn exampleConfig pgDatabase (VBytes [CHR 0xD6, CHR 0xD0]) ''datname''
     ''postgres'' =
     Inr (([CHR 0xEF, CHR 0xBF, CHR 0xBD, CHR 0xEF, CHR 0xBF, CHR 0xBD], None), pgDatabase) \<and>
   decode exampleLib GetColumn exampleConfig pgDatabase (VBytes [CHR 0xD6, CHR 0xD0]) ''datname''
     ''postgres'' \<noteq> Inr (([CHR 0xE4, CHR 0xB8, CHR 0xAD], None), pgDatabase)"
proof -
  have gbk: "DecodeByte exampleLib [CHR 0xD6, CHR 0xD0] GBK =
      Inr ([CHR 0xE4, CHR 0xB8, CHR 0xAD], None)"
    by (simp add: DecodeByte_def GBK_def GetMapCharset_known exampleLib_def exampleDecoderGBK_def)
  have gb18030: "DecodeByte exampleLib [CHR 0xD6, CHR 0xD0] GB18030 =
      Inr ([CHR 0xE4, CHR 0xB8, CHR 0xAD], None)"
    by (simp add: DecodeByte_def GB18030_def GetMapCharset_known exampleLib_def
        exampleDecoderGBK_def)
  have c: "CheckUTF8 datnameColumn" by (simp add: datnameColumn_def)
  have bad: "\<not> ValidString [CHR 0xD6, CHR 0xD0]"
    by (simp add: ValidString_def cont_def)
  have d: "decode exampleLib GetColumn exampleConfig pgDatabase (VBytes [CHR 0xD6, CHR 0xD0])
      ''datname'' ''postgres'' =
      Inr (([CHR 0xEF, CHR 0xBF, CHR 0xBD, CHR 0xEF, CHR 0xBF, CHR 0xBD], None), pgDatabase)"
    using bad c
    by (simp add: decode_def GetColumn_pgDatabase DecodeByte_UTF8 exampleLib_def
        exampleDecoderUTF8_def)
  from gbk gb18030 c bad d show ?thesis by simp
qed

section \<open>Label lookup\<close>








lemma newMetric_skipped_examples:
  "newMetric lib cfg q None name v ls = (None, None)"
  "newMetric lib cfg q (Some datnameColumn) name v ls = (None, None)"
  "newMetric lib cfg q (Some ageColumn) name v ls = (None, None)"
  by (simp_all add: newMetric_def datnameColumn_def ageColumn_def)




section \<open>Running the statements\<close>

lemma scanLoop_acc: "scanLoop n events list = list @ scanLoop n events []"
proof (induction events arbitrary: list)
  case Nil
  show ?case by simp
next
  case (Cons ev events)
  show ?case
  proof (cases ev)
    case (Inl err)
    then show ?thesis by simp
  next
    case (Inr columnData)
    show ?thesis
      using Cons.IH [of "list @ [columnData]"] Cons.IH [of "[columnData]"]
      by (simp add: Inr)
  qed
qed

lemma lastColumns_Cons:
  "lastColumns db (query # queries) =
     (if filter (executed db) queries = []
      then (if executed db query then statementColumns db query else [])
      else lastColumns db queries)"
  by (simp add: lastColumns_def)

lemma queryLoop_result:
  "queryLoop db queries columnNames list =
     (if filter (executed db) queries = [] then columnNames else lastColumns db queries,
      list @ concat (map (statementRows db) queries))"
proof (induction queries arbitrary: columnNames list)
  case Nil
  show ?case by simp
next
  case (Cons query queries)
  show ?case
  proof (cases "Status query = ''disable''")
    case True
    then have "\<not> executed db query" and "statementRows db query = []"
      by (simp_all add: executed_def enabled_def statementRows_def)
    with True show ?thesis by (simp add: Cons.IH lastColumns_Cons)
  next
    case enabled: False
    show ?thesis
    proof (cases "db (SQL query)")
      case (QueryErr err)
      then have "\<not> executed db query" and "statementRows db query = []"
        by (simp_all add: executed_def statementRows_def)
      with enabled QueryErr show ?thesis by (simp add: Cons.IH lastColumns_Cons)
    next
      case QueryNil
      then have "\<not> executed db query" and "statementRows db query = []"
        by (simp_all add: executed_def statementRows_def)
      with enabled QueryNil show ?thesis by (simp add: Cons.IH lastColumns_Cons)
    next
      case (QueryRows cols events)
      have ex: "executed db query"
        using enabled QueryRows by (simp add: executed_def enabled_def)
      have cn: "(case cols of Inl err \<Rightarrow> [] | Inr names \<Rightarrow> names) = statementColumns db query"
        using QueryRows by (cases cols) (simp_all add: statementColumns_def)
      have rows: "statementRows db query = scanLoop (length (statementColumns db query)) events []"
        using ex QueryRows by (simp add: statementRows_def)
      have "queryLoop db (query # queries) columnNames list =
          queryLoop db queries (statementColumns db query)
            (scanLoop (length (statementColumns db query)) events list)"
        using enabled QueryRows cn by (simp add: Let_def)
      also have "\<dots> = (if filter (executed db) queries = [] then statementColumns db query
            else lastColumns db queries,
          scanLoop (length (statementColumns db query)) events list
            @ concat (map (statementRows db) queries))"
        by (rule Cons.IH)
      finally show ?thesis
        using ex rows scanLoop_acc [of "length (statementColumns db query)" events list]
        by (simp add: lastColumns_Cons)
    qed
  qed
qed

lemma queryLoop_start:
  "queryLoop db queries [] [] =
     (lastColumns db queries, concat (map (statementRows db) queries))"
  by (simp add: queryLoop_result lastColumns_def)

lemma makeColumnIdx_snoc:
  "makeColumnIdx (columnNames @ [n]) = (makeColumnIdx columnNames)(n \<mapsto> int (length columnNames))"
  by (simp add: makeColumnIdx_def enumerate_append_eq)

lemma makeColumnIdx_iff:
  "makeColumnIdx columnNames name = Some i \<longleftrightarrow>
     (\<exists>k. i = int k \<and> k < length columnNames \<and> columnNames ! k = name \<and>
          (\<forall>j. k < j \<and> j < length columnNames \<longrightarrow> columnNames ! j \<noteq> name))"
proof (induction columnNames arbitrary: i rule: rev_induct)
  case Nil
  show ?case by (simp add: makeColumnIdx_def)
next
  case (snoc n ns)
  show ?case
  proof (cases "n = name")
    case True
    have "(\<exists>k. i = int k \<and> k < Suc (length ns) \<and> (ns @ [n]) ! k = name \<and>
          (\<forall>j. k < j \<and> j < Suc (length ns) \<longrightarrow> (ns @ [n]) ! j \<noteq> name)) \<longleftrightarrow> i = int (length ns)"
    proof
      assume "\<exists>k. i = int k \<and> k < Suc (length ns) \<and> (ns @ [n]) ! k = name \<and>
          (\<forall>j. k < j \<and> j < Suc (length ns) \<longrightarrow> (ns @ [n]) ! j \<noteq> name)"
      then obtain k where k: "i = int k" "k < Suc (length ns)"
        and later: "\<forall>j. k < j \<and> j < Suc (length ns) \<longrightarrow> (ns @ [n]) ! j \<noteq> name"
        by blast
      have "\<not> k < length ns"
      proof
        assume "k < length ns"
        with later have "(ns @ [n]) ! length ns \<noteq> name"
          by (auto dest: spec [of _ "length ns"])
        with True show False by simp
      qed
      with k show "i = int (length ns)" by simp
    next
      assume "i = int (length ns)"
      with True show "\<exists>k. i = int k \<and> k < Suc (length ns) \<and> (ns @ [n]) ! k = name \<and>
          (\<forall>j. k < j \<and> j < Suc (length ns) \<longrightarrow> (ns @ [n]) ! j \<noteq> name)"
        by (intro exI [of _ "length ns"]) auto
    qed
    with True show ?thesis by (auto simp: makeColumnIdx_snoc)
  next
    case False
    have "(\<exists>k. i = int k \<and> k < Suc (length ns) \<and> (ns @ [n]) ! k = name \<and>
          (\<forall>j. k < j \<and> j < Suc (length ns) \<longrightarrow> (ns @ [n]) ! j \<noteq> name)) \<longleftrightarrow>
        (\<exists>k. i = int k \<and> k < length ns \<and> ns ! k = name \<and>
          (\<forall>j. k < j \<and> j < length ns \<longrightarrow> ns ! j \<noteq> name))"
      (is "?l \<longleftrightarrow> ?r")
    proof
      assume ?l
      then obtain k where k: "i = int k" "k < Suc (length ns)" "(ns @ [n]) ! k = name"
        and later: "\<forall>j. k < j \<and> j < Suc (length ns) \<longrightarrow> (ns @ [n]) ! j \<noteq> name"
        by blast
      from k False have kl: "k < length ns" by (cases "k = length ns") simp_all
      have "\<forall>j. k < j \<and> j < length ns \<longrightarrow> ns ! j \<noteq> name"
      proof (intro allI impI)
        fix j assume j: "k < j \<and> j < length ns"
        with later have "(ns @ [n]) ! j \<noteq> name" by simp
        with j show "ns ! j \<noteq> name" by (simp add: nth_append)
      qed
      with k kl show ?r by (intro exI [of _ k]) (simp add: nth_append)
    next
      assume ?r
      then obtain k where k: "i = int k" "k < length ns" "ns ! k = name"
        and later: "\<forall>j. k < j \<and> j < length ns \<longrightarrow> ns ! j \<noteq> name"
        by blast
      have "\<forall>j. k < j \<and> j < Suc (length ns) \<longrightarrow> (ns @ [n]) ! j \<noteq> name"
      proof (intro allI impI)
        fix j assume j: "k < j \<and> j < Suc (length ns)"
        show "(ns @ [n]) ! j \<noteq> name"
        proof (cases "j < length ns")
          case True
          with j later show ?thesis by (simp add: nth_append)
        next
          case False
          with j have "j = length ns" by simp
          with \<open>n \<noteq> name\<close> show ?thesis by simp
        qed
      qed
      with k show ?l by (intro exI [of _ k]) (simp add: nth_append)
    qed
    with False snoc.IH [of i] show ?thesis by (simp add: makeColumnIdx_snoc)
  qed
qed

lemma rowLoop_append:
  "rowLoop lib gc cfg columnNames columnIdx (rows1 @ rows2) q metrics =
     (case rowLoop lib gc cfg columnNames columnIdx rows1 q metrics of
        Inl p \<Rightarrow> Inl p
      | Inr (metrics', q') \<Rightarrow> rowLoop lib gc cfg columnNames columnIdx rows2 q' metrics')"
  by (induction rows1 arbitrary: q metrics) (simp_all split: sum.splits prod.splits)

text \<open>
  C4. \<open>getMetric\<close> appends the rows of the executed statements, in the order of the
  statements, into one list, and processes every row of the list, those of earlier
  statements like those of the last, with the column names of the last executed
  statement and the one index map built from them (a name is mapped to the last
  position at which it occurs). The column names of earlier statements are not used.
\<close>

theorem getMetric_last_statement_columns:
  "getMetric lib gc cfg db q =
     rowLoop lib gc cfg (lastColumns db (Queries q)) (makeColumnIdx (lastColumns db (Queries q)))
       (concat (map (statementRows db) (Queries q))) q [] \<and>
   rowLoop lib gc cfg columnNames columnIdx (rows1 @ rows2) q metrics =
     (case rowLoop lib gc cfg columnNames columnIdx rows1 q metrics of
        Inl p \<Rightarrow> Inl p
      | Inr (metrics', q') \<Rightarrow> rowLoop lib gc cfg columnNames columnIdx rows2 q' metrics') \<and>
   (makeColumnIdx columnNames name = Some i \<longleftrightarrow>
     (\<exists>k. i = int k \<and> k < length columnNames \<and> columnNames ! k = name \<and>
          (\<forall>j. k < j \<and> j < length columnNames \<longrightarrow> columnNames ! j \<noteq> name)))"
  using makeColumnIdx_iff [of columnNames name i]
  by (simp add: getMetric_def queryLoop_start rowLoop_append)

lemma queryLoop_enabled:
  "queryLoop db queries columnNames list = queryLoop db (filter enabled queries) columnNames list"
  by (induction queries arbitrary: columnNames list)
    (simp_all add: enabled_def split: queryResult.splits)

text \<open>
  C6. \<open>getMetric\<close> runs the statements whose status is not \<open>disable\<close> and no other: the rows
  and column names it collects are those of the definition with the disabled statements
  removed, a disabled statement contributes no row, and a definition whose statements
  are all disabled yields no sample.
\<close>

theorem getMetric_enabled_only:
  "queryLoop db queries columnNames list = queryLoop db (filter enabled queries) columnNames list \<and>
   snd (queryLoop db queries [] []) = concat (map (statementRows db) (filter enabled queries)) \<and>
   (\<not> enabled query \<longrightarrow> statementRows db query = []) \<and>
   getMetric lib gc cfg db q =
     (let (columnNames, list) = queryLoop db (filter enabled (Queries q)) [] []
      in rowLoop lib gc cfg columnNames (makeColumnIdx columnNames) list q []) \<and>
   (list_all (\<lambda>query. \<not> enabled query) (Queries q) \<longrightarrow> getMetric lib gc cfg db q = Inr ([], q))"
proof -
  have a: "queryLoop db queries columnNames list =
      queryLoop db (filter enabled queries) columnNames list"
    by (rule queryLoop_enabled)
  have b: "snd (queryLoop db queries [] []) =
      concat (map (statementRows db) (filter enabled queries))"
    by (subst queryLoop_enabled) (simp add: queryLoop_start)
  have c: "\<not> enabled query \<longrightarrow> statementRows db query = []"
    by (simp add: statementRows_def executed_def)
  have d: "getMetric lib gc cfg db q =
     (let (columnNames, list) = queryLoop db (filter enabled (Queries q)) [] []
      in rowLoop lib gc cfg columnNames (makeColumnIdx columnNames) list q [])"
    by (simp add: getMetric_def queryLoop_enabled [symmetric])
  have e: "list_all (\<lambda>query. \<not> enabled query) (Queries q) \<longrightarrow>
      getMetric lib gc cfg db q = Inr ([], q)"
  proof
    assume "list_all (\<lambda>query. \<not> enabled query) (Queries q)"
    then have "filter enabled (Queries q) = []"
      by (simp add: list_all_iff filter_empty_conv)
    with d show "getMetric lib gc cfg db q = Inr ([], q)" by simp
  qed
  from a b c d e show ?thesis by simp
qed

lemma pgSwapped_fields:
  "Name pgSwapped = ''pg_database''"
  "LabelNames pgSwapped = [''datname'']"
  "DBNameLabel pgSwapped = []"
  "Queries pgSwapped = [\<lparr>SQL = ''SELECT datname, numbackends FROM a'', Status = ''enable''\<rparr>,
                        \<lparr>SQL = ''SELECT numbackends, datname FROM b'', Status = ''enable''\<rparr>]"
  by (simp_all add: pgSwapped_def pgDatabase_def)

lemma GetColumn_pgSwapped:
  "GetColumn pgSwapped ''datname'' l = (Some datnameColumn, pgSwapped)"
  "GetColumn pgSwapped ''numbackends'' l =
     (Some (numbackendsColumn\<lparr>PrometheusDesc := Some (numbackendsDesc\<lparr>constLabels := l\<rparr>)\<rparr>), pgSwapped)"
  by (simp_all add: GetColumn_def pgSwapped_def pgDatabase_def datnameColumn_def
      numbackendsColumn_def numbackendsDesc_def)

lemma newMetric_numbackends_int:
  assumes "ValidString s"
  shows "newMetric exampleLib exampleConfig q
     (Some (numbackendsColumn\<lparr>PrometheusDesc := Some (numbackendsDesc\<lparr>constLabels := l\<rparr>)\<rparr>))
     ''numbackends'' (VInt64 n) [s] =
   (Some \<lparr>metricDesc = numbackendsDesc\<lparr>constLabels := l\<rparr>, metricType = GaugeValue,
           metricValue = float64_of_int (sint n), metricLabelValues = [s]\<rparr>, None)"
  using eligible_examples(1) [of "Some (numbackendsDesc\<lparr>constLabels := l\<rparr>)"] assms
  apply (simp add: newMetric_def eligible_def)
  apply (simp add: exampleLib_def promMustNewConstMetric_def numbackendsColumn_def)
  apply (simp add: numbackendsDesc_def)
  done

lemma swapped_statements:
  "lastColumns swappedDb (Queries pgSwapped) = [''numbackends'', ''datname'']"
  "concat (map (statementRows swappedDb) (Queries pgSwapped)) =
     [[VString ''postgres'', VInt64 3], [VInt64 5, VString ''template1'']]"
  by (simp_all add: lastColumns_def pgSwapped_fields executed_def enabled_def swappedDb_def
      statementColumns_def statementRows_def)

lemma swapped_index:
  "mapIndex (makeColumnIdx [''numbackends'', ''datname'']) ''datname'' = 1"
  "mapIndex (makeColumnIdx [''numbackends'', ''datname'']) ''numbackends'' = 0"
  "makeColumnIdx [''numbackends'', ''datname''] ''datname'' = Some 1"
  by (simp_all add: makeColumnIdx_def mapIndex_def)

lemma swapped_first_row:
  "procRows exampleLib GetColumn exampleConfig pgSwapped [''numbackends'', ''datname'']
     (makeColumnIdx [''numbackends'', ''datname'']) [VString ''postgres'', VInt64 3] =
   Inr (([], [ErrParsingColumn ''pg_database'' ''numbackends'' (VString ''postgres'')]), pgSwapped)"
proof -
  have d: "decode exampleLib GetColumn exampleConfig pgSwapped (VInt64 3) ''datname'' [] =
      Inr ((''3'', None), pgSwapped)"
    by (simp add: decode_def GetColumn_pgSwapped datnameColumn_def ValidString_def show_int_def
        digit_char_def char_eval)
  have l: "rowLabels exampleLib GetColumn exampleConfig pgSwapped
      (makeColumnIdx [''numbackends'', ''datname'']) [VString ''postgres'', VInt64 3] =
      Inr ([''3''], pgSwapped)"
    by (simp add: rowLabels_def pgSwapped_fields index_def swapped_index d)
  have n: "newMetric exampleLib exampleConfig pgSwapped
      (Some (numbackendsColumn\<lparr>PrometheusDesc := Some (numbackendsDesc\<lparr>constLabels := l\<rparr>)\<rparr>))
      ''numbackends'' (VString ''postgres'') [''3''] =
      (None, Some (ErrParsingColumn ''pg_database'' ''numbackends'' (VString ''postgres'')))" for l
    using newMetric_unparsed [OF eligible_examples(1), of "VString ''postgres''"]
    by (simp add: exampleLib_def pgSwapped_fields)
  show ?thesis
    by (simp add: procRows_def l GetColumn_pgSwapped index_def n newMetric_skipped_examples)
qed

lemma swapped_second_row:
  "procRows exampleLib GetColumn exampleConfig pgSwapped [''numbackends'', ''datname'']
     (makeColumnIdx [''numbackends'', ''datname'']) [VInt64 5, VString ''template1''] =
   Inr (([\<lparr>metricDesc = numbackendsDesc\<lparr>constLabels := serverLabels exampleConfig\<rparr>,
           metricType = GaugeValue, metricValue = float64_of_int 5,
           metricLabelValues = [''template1'']\<rparr>], []), pgSwapped)"
proof -
  have v: "ValidString ''template1''" by (simp add: ValidString_def)
  have d: "decode exampleLib GetColumn exampleConfig pgSwapped (VString ''template1'') ''datname'' [] =
      Inr ((''template1'', None), pgSwapped)"
    by (simp add: decode_def GetColumn_pgSwapped datnameColumn_def v)
  have l: "rowLabels exampleLib GetColumn exampleConfig pgSwapped
      (makeColumnIdx [''numbackends'', ''datname'']) [VInt64 5, VString ''template1''] =
      Inr ([''template1''], pgSwapped)"
    by (simp add: rowLabels_def pgSwapped_fields index_def swapped_index d)
  show ?thesis
    using newMetric_numbackends_int [OF v, of pgSwapped "serverLabels exampleConfig" 5]
    by (simp add: procRows_def l GetColumn_pgSwapped index_def newMetric_skipped_examples)
qed

theorem getMetric_last_statement_columns_witness:
  "lastColumns swappedDb (Queries pgSwapped) = [''numbackends'', ''datname''] \<and>
   concat (map (statementRows swappedDb) (Queries pgSwapped)) =
     [[VString ''postgres'', VInt64 3], [VInt64 5, VString ''template1'']] \<and>
   makeColumnIdx [''numbackends'', ''datname''] ''datname'' = Some 1 \<and>
   getMetric exampleLib GetColumn exampleConfig swappedDb pgSwapped =
     Inr ([\<lparr>metricDesc = numbackendsDesc\<lparr>constLabels := serverLabels exampleConfig\<rparr>,
            metricType = GaugeValue, metricValue = float64_of_int 5,
            metricLabelValues = [''template1'']\<rparr>], pgSwapped)"
  using getMetric_last_statement_columns [of exampleLib GetColumn exampleConfig swappedDb pgSwapped
      "[''numbackends'', ''datname'']" "makeColumnIdx [''numbackends'', ''datname'']"
      "[[VString ''postgres'', VInt64 3]]" "[[VInt64 5, VString ''template1'']]" "[]"
      "''datname''" 1]
  by (simp add: swapped_statements swapped_index swapped_first_row swapped_second_row)

theorem getMetric_enabled_only_witness:
  "\<not> enabled \<lparr>SQL = ''SELECT datname, numbackends, xact_commit FROM old'', Status = ''disable''\<rparr> \<and>
   queryLoop exampleDb (Queries pgDatabase) [] [] =
     ([''datname'', ''numbackends'', ''xact_commit''],
      [[VString ''postgres'', VInt64 3, VInt64 7], [VString ''template1'', VString ''N/A'', VInt64 7]]) \<and>
   statementRows exampleDb
     \<lparr>SQL = ''SELECT datname, numbackends, xact_commit FROM old'', Status = ''disable''\<rparr> = [] \<and>
   getMetric exampleLib GetColumn exampleConfig exampleDb
     (pgDatabase\<lparr>Queries :=
        [\<lparr>SQL = ''SELECT datname, numbackends, xact_commit FROM old'', Status = ''disable''\<rparr>]\<rparr>) =
     Inr ([], pgDatabase\<lparr>Queries :=
        [\<lparr>SQL = ''SELECT datname, numbackends, xact_commit FROM old'', Status = ''disable''\<rparr>]\<rparr>)"
proof -
  let ?old = "\<lparr>SQL = ''SELECT datname, numbackends, xact_commit FROM old'', Status = ''disable''\<rparr>"
  have off: "\<not> enabled ?old" by (simp add: enabled_def)
  have all: "list_all (\<lambda>query. \<not> enabled query) (Queries (pgDatabase\<lparr>Queries := [?old]\<rparr>))"
    by (simp add: enabled_def)
  have run: "queryLoop exampleDb (filter enabled (Queries pgDatabase)) [] [] =
     ([''datname'', ''numbackends'', ''xact_commit''],
      [[VString ''postgres'', VInt64 3, VInt64 7], [VString ''template1'', VString ''N/A'', VInt64 7]])"
    by (simp add: pgDatabase_def enabled_def exampleDb_def)
  from getMetric_enabled_only [of exampleDb "Queries pgDatabase" "[]" "[]" ?old exampleLib
      GetColumn exampleConfig "pgDatabase\<lparr>Queries := [?old]\<rparr>"] off all run
  show ?thesis by simp
qed

end
